theory Spec2Isabelle
  imports Main
begin

section \<open>Strings as Python sees them\<close>

text \<open>
  Strings are lists of characters; a character stands for a code point below 256.
  The helpers below are the string methods of the source (\<open>strip\<close>, \<open>lower\<close>,
  \<open>replace\<close>, \<open>in\<close>) on that range.
\<close>

definition is_digit :: "char \<Rightarrow> bool" where
  "is_digit c = (c \<in> set ''0123456789'')"

definition is_space :: "char \<Rightarrow> bool" where
  "is_space c = ((of_char c :: nat) \<in> {9, 10, 11, 12, 13, 28, 29, 30, 31, 32, 133, 160})"

definition strip :: "string \<Rightarrow> string" where
  "strip s = rev (dropWhile is_space (rev (dropWhile is_space s)))"

definition lower_char :: "char \<Rightarrow> char" where
  "lower_char c =
     (let n = (of_char c :: nat)
      in if (65 \<le> n \<and> n \<le> 90) \<or> (192 \<le> n \<and> n \<le> 222 \<and> n \<noteq> 215)
         then (case c of Char b0 b1 b2 b3 b4 b5 b6 b7 \<Rightarrow> Char b0 b1 b2 b3 b4 True b6 b7)
         else c)"

definition lower :: "string \<Rightarrow> string" where
  "lower s = map lower_char s"

definition replace_space :: "string \<Rightarrow> string" where
  "replace_space s = map (\<lambda>c. if c = CHR '' '' then CHR ''_'' else c) s"

fun starts_with :: "string \<Rightarrow> string \<Rightarrow> bool" where
  "starts_with [] s = True"
| "starts_with (p # ps) [] = False"
| "starts_with (p # ps) (c # cs) = (p = c \<and> starts_with ps cs)"

fun contains :: "string \<Rightarrow> string \<Rightarrow> bool" where
  "contains sub [] = (sub = [])"
| "contains sub (c # cs) = (starts_with sub (c # cs) \<or> contains sub cs)"

definition py_str :: "string option \<Rightarrow> string" where
  "py_str v = (case v of None \<Rightarrow> ''None'' | Some s \<Rightarrow> s)"

definition py_or :: "string option \<Rightarrow> string option \<Rightarrow> string option" where
  "py_or a b = (case a of None \<Rightarrow> b | Some s \<Rightarrow> if s = [] then b else Some s)"

section \<open>The three default version patterns\<close>

text \<open>
  \<open>dotted k s\<close> matches \<open>\d+(\.\d+){k}\<close> at the start of \<open>s\<close>. Every
  \<open>\d+\<close> but the last is followed by a literal dot, so only the whole run of digits can
  match there, and the last one is greedy: the match is the longest one.
\<close>

fun dotted :: "nat \<Rightarrow> string \<Rightarrow> string option" where
  "dotted k s =
     (let d = takeWhile is_digit s; r = dropWhile is_digit s
      in if d = [] then None
         else (case k of
                 0 \<Rightarrow> Some d
               | Suc j \<Rightarrow>
                   (case r of
                      [] \<Rightarrow> None
                    | c # r' \<Rightarrow>
                        if c = CHR ''.''
                        then (case dotted j r' of None \<Rightarrow> None | Some v \<Rightarrow> Some (d @ ''.'' @ v))
                        else None)))"

fun ci_prefix :: "string \<Rightarrow> string \<Rightarrow> string option" where
  "ci_prefix [] s = Some s"
| "ci_prefix (p # ps) [] = None"
| "ci_prefix (p # ps) (c # cs) = (if lower_char c = p then ci_prefix ps cs else None)"

definition pat_dotted3 :: "string \<Rightarrow> string option" where
  "pat_dotted3 s = dotted 2 s"

definition pat_version :: "string \<Rightarrow> string option" where
  "pat_version s = (case ci_prefix ''version '' s of None \<Rightarrow> None | Some r \<Rightarrow> dotted 1 r)"

definition pat_v3 :: "string \<Rightarrow> string option" where
  "pat_v3 s = (case ci_prefix ''v'' s of None \<Rightarrow> None | Some r \<Rightarrow> dotted 2 r)"

fun search :: "(string \<Rightarrow> string option) \<Rightarrow> string \<Rightarrow> string option" where
  "search m [] = m []"
| "search m (c # cs) = (case m (c # cs) of Some v \<Rightarrow> Some v | None \<Rightarrow> search m cs)"

fun first_pattern :: "(string \<Rightarrow> string option) list \<Rightarrow> string \<Rightarrow> string option" where
  "first_pattern [] output = None"
| "first_pattern (p # ps) output =
     (case search p output of Some v \<Rightarrow> Some v | None \<Rightarrow> first_pattern ps output)"

definition default_patterns :: "(string \<Rightarrow> string option) list" where
  "default_patterns = [pat_dotted3, pat_version, pat_v3]"

section \<open>The host system and the data model\<close>

text \<open>
  The checks read the machine they run on. \<open>host\<close> holds what they read:
  \<open>which\<close> is \<open>shutil.which\<close>, \<open>run\<close> is \<open>subprocess.run\<close> under the five-second
  timeout (the outcome is a completed process with exit code, stdout and stderr, or one of
  the exceptions that \<open>run_command\<close> catches), \<open>path_exists\<close> is \<open>Path.exists\<close>, and
  \<open>re_search\<close> is \<open>re.search\<close> on a pattern taken from the configuration: it fails to
  compile, finds nothing, or finds a match with its text (group 0) and its capturing groups,
  each of which may have taken no part in the match.

  \<open>Path.exists\<close> answers \<open>True\<close> or \<open>False\<close>, or it raises: an \<open>OSError\<close> of
  \<open>stat\<close> other than "no such file", "not a directory", "bad file descriptor" and "too
  many links" (a name that is too long, a directory that may not be searched) is raised
  again, and the source calls \<open>exists\<close> outside any \<open>try\<close>.
\<close>

datatype exists_outcome = Present | Absent | ExistsRaises

datatype proc_outcome =
    Completed int string string
  | TimeoutExpired
  | FileNotFoundError
  | OtherException string

datatype re_result = ReError | NoMatch | Match string "string option list"

record host =
  which :: "string \<Rightarrow> string option"
  run :: "string list \<Rightarrow> proc_outcome"
  path_exists :: "string \<Rightarrow> exists_outcome"
  re_search :: "string \<Rightarrow> string \<Rightarrow> re_result"

datatype py_error = KeyError string | ReCompileError | TypeError | OSError

record issue =
  issue_level :: string
  issue_message :: string
  issue_fix :: "string option"

record installation =
  inst_method :: "string option"
  inst_command :: "string option"
  inst_url :: "string option"
  inst_notes :: "string option"

record tool_result =
  tool_id :: string
  name :: string
  category :: string
  status :: string
  installed :: bool
  working :: bool
  version :: "string option"
  path :: "string option"
  check_type :: string
  issues :: "issue list"
  installation :: "installation option"

text \<open>
  A descriptor of the configuration file. Identifier, display name and category are
  attributes of every descriptor; the \<open>check\<close> section, each of its keys, the
  \<open>installation\<close> section and its \<open>primary\<close> entry may be missing.
\<close>

record check_cfg =
  ck_type :: "string option"
  ck_function :: "string option"
  ck_command :: "string option"
  ck_version_flag :: "string option"
  ck_version_regex :: "string option"
  ck_paths :: "string list option"

record install_section =
  primary :: "installation option"

record tool_config =
  cfg_id :: string
  cfg_name :: string
  cfg_category :: string
  cfg_check :: "check_cfg option"
  cfg_installation :: "install_section option"

record recommendation =
  priority :: string
  message :: string
  action :: "string option"

record report =
  all_required_present :: bool
  required_count :: nat
  required_present :: nat
  optional_count :: nat
  optional_present :: nat
  tools :: "tool_result list"
  recommendations :: "recommendation list"

text \<open>A dictionary is true in a condition when it has a key.\<close>

definition inst_nonempty :: "installation \<Rightarrow> bool" where
  "inst_nonempty i =
     (inst_method i \<noteq> None \<or> inst_command i \<noteq> None \<or> inst_url i \<noteq> None \<or> inst_notes i \<noteq> None)"

section \<open>Running a command and extracting a version\<close>

definition run_command :: "host \<Rightarrow> string list \<Rightarrow> bool \<Rightarrow> bool \<times> string \<times> string" where
  "run_command h command check_error =
     (case run h command of
        Completed rc out err \<Rightarrow> ((if check_error then rc = 0 else True), out, err)
      | TimeoutExpired \<Rightarrow> (False, '''', ''Command timed out'')
      | FileNotFoundError \<Rightarrow> (False, '''', ''Command not found'')
      | OtherException msg \<Rightarrow> (False, '''', msg))"

definition extract_version :: "host \<Rightarrow> string \<Rightarrow> string option \<Rightarrow> py_error + string option" where
  "extract_version h output regex =
     (if output = [] then Inr None
      else (case (case regex of
                    None \<Rightarrow> NoMatch
                  | Some r \<Rightarrow> if r = [] then NoMatch else re_search h r output) of
              ReError \<Rightarrow> Inl ReCompileError
            | Match g0 gs \<Rightarrow> Inr (case gs of [] \<Rightarrow> Some g0 | g1 # _ \<Rightarrow> g1)
            | NoMatch \<Rightarrow> Inr (first_pattern default_patterns output)))"

text \<open>The loop over the alternative flags; \<open>None\<close> is the loop's \<open>else\<close> branch.\<close>

fun try_flags :: "host \<Rightarrow> string \<Rightarrow> string list \<Rightarrow> string option" where
  "try_flags h command [] = None"
| "try_flags h command (flag # flags) =
     (case run_command h [command, flag] False of
        (success, stdout, stderr) \<Rightarrow>
          if success \<or> stdout \<noteq> [] \<or> stderr \<noteq> []
          then Some (if stdout \<noteq> [] then stdout else stderr)
          else try_flags h command flags)"

definition fallback_flags :: "string list" where
  "fallback_flags = [''-v'', ''version'', ''-version'', ''--version'']"

definition check_command ::
  "host \<Rightarrow> string \<Rightarrow> string \<Rightarrow> string option \<Rightarrow> py_error + (bool \<times> string option \<times> string option)" where
  "check_command h command version_flag version_regex =
     (case which h command of
        None \<Rightarrow> Inr (False, None, None)
      | Some cmd_path \<Rightarrow>
          if cmd_path = [] then Inr (False, None, None)
          else (case run_command h [command, version_flag] False of
                  (success, stdout, stderr) \<Rightarrow>
                    (case (if \<not> success
                           then (if stderr \<noteq> [] then Some stderr
                                 else try_flags h command fallback_flags)
                           else Some (if stdout \<noteq> [] then stdout else stderr)) of
                       None \<Rightarrow> Inr (True, None, Some cmd_path)
                     | Some output \<Rightarrow>
                         (case extract_version h output version_regex of
                            Inl e \<Rightarrow> Inl e
                          | Inr ver \<Rightarrow> Inr (True, ver, Some cmd_path)))))"

section \<open>The three special routines\<close>

definition xcode_app :: string where
  "xcode_app = ''/Applications/Xcode.app''"

definition xcode_store_url :: string where
  "xcode_store_url = ''https://apps.apple.com/us/app/xcode/id497799835''"

definition reselect_command :: string where
  "reselect_command = ''sudo xcode-select -s /Applications/Xcode.app/Contents/Developer''"

text \<open>The condition \<open>xcode_select_path and sub in xcode_select_path\<close>.\<close>

definition selected :: "string \<Rightarrow> string option \<Rightarrow> bool" where
  "selected sub sel = (case sel of None \<Rightarrow> False | Some s \<Rightarrow> s \<noteq> [] \<and> contains sub s)"

text \<open>
  \<open>check_xcode\<close> returns \<open>None\<close> where the source reaches the end of the function
  without a \<open>return\<close>: Xcode is there and selected, \<open>xcodebuild -version\<close> fails, the
  issue is appended to the local list and nothing is returned.
\<close>

definition check_xcode :: "host \<Rightarrow> py_error + tool_result option" where
  "check_xcode h =
     (case run_command h [''xcode-select'', ''-p''] False of
        (success, stdout, stderr) \<Rightarrow>
          let xcode_select_path = (if success then Some (strip stdout) else None)
          in (case path_exists h xcode_app of
             ExistsRaises \<Rightarrow> Inl OSError
           | Present \<Rightarrow>
                  (if selected ''Xcode.app'' xcode_select_path
                   then (case run_command h [''xcodebuild'', ''-version''] True of
                           (success2, stdout2, stderr2) \<Rightarrow>
                             if success2
                             then (case extract_version h stdout2 None of
                                     Inl e \<Rightarrow> Inl e
                                   | Inr ver \<Rightarrow>
                                       (case run_command h [''xcodebuild'', ''-checkFirstLaunchStatus''] True of
                                          (first_launch_success, u, v) \<Rightarrow>
                                            let iss = (if \<not> first_launch_success
                                                       then [\<lparr>issue_level = ''warning'',
                                                              issue_message = ''Xcode may need to complete first launch setup'',
                                                              issue_fix = Some ''sudo xcodebuild -runFirstLaunch''\<rparr>]
                                                       else [])
                                            in Inr (Some \<lparr>tool_id = ''xcode'', name = ''Xcode'',
                                                  category = ''required'',
                                                  status = (if iss = [] then ''found'' else ''warning''),
                                                  installed = True, working = True, version = ver,
                                                  path = xcode_select_path, check_type = ''xcode_special'',
                                                  issues = iss, installation = None\<rparr>)))
                             else Inr None)
                   else Inr (Some \<lparr>tool_id = ''xcode'', name = ''Xcode'', category = ''required'',
                          status = ''error'', installed = True, working = False, version = None,
                          path = Some xcode_app, check_type = ''xcode_special'',
                          issues = [\<lparr>issue_level = ''error'',
                                     issue_message = ''Xcode.app exists but not selected (current: ''
                                                     @ py_str xcode_select_path @ '')'',
                                     issue_fix = Some reselect_command\<rparr>],
                          installation = Some \<lparr>inst_method = Some ''Fix selection'',
                                                inst_command = Some reselect_command,
                                                inst_url = None, inst_notes = None\<rparr>\<rparr>))
           | Absent \<Rightarrow>
             if selected ''CommandLineTools'' xcode_select_path
             then Inr (Some \<lparr>tool_id = ''xcode'', name = ''Xcode'', category = ''required'',
                    status = ''not_found'', installed = False, working = False, version = None,
                    path = None, check_type = ''xcode_special'',
                    issues = [\<lparr>issue_level = ''error'',
                               issue_message = ''Only Command Line Tools installed, full Xcode required'',
                               issue_fix = Some ''Download Xcode from Mac App Store''\<rparr>],
                    installation = Some \<lparr>inst_method = Some ''Mac App Store'', inst_command = None,
                                          inst_url = Some xcode_store_url,
                                          inst_notes = Some ''Full Xcode installation required for building macOS apps''\<rparr>\<rparr>)
             else Inr (Some \<lparr>tool_id = ''xcode'', name = ''Xcode'', category = ''required'',
                    status = ''not_found'', installed = False, working = False, version = None,
                    path = None, check_type = ''xcode_special'',
                    issues = [\<lparr>issue_level = ''error'', issue_message = ''Xcode not installed'',
                               issue_fix = Some ''Download from Mac App Store or https://developer.apple.com''\<rparr>],
                    installation = Some \<lparr>inst_method = Some ''Mac App Store'', inst_command = None,
                                          inst_url = Some xcode_store_url, inst_notes = None\<rparr>\<rparr>)))"

definition check_xcode_clt :: "host \<Rightarrow> tool_result" where
  "check_xcode_clt h =
     (case run_command h [''xcode-select'', ''-p''] False of
        (success, stdout, stderr) \<Rightarrow>
          if success \<and> strip stdout \<noteq> []
          then \<lparr>tool_id = ''xcode_clt'', name = ''Xcode Command Line Tools'', category = ''required'',
                status = ''found'', installed = True, working = True, version = None,
                path = Some (strip stdout), check_type = ''directory'', issues = [],
                installation = None\<rparr>
          else \<lparr>tool_id = ''xcode_clt'', name = ''Xcode Command Line Tools'', category = ''required'',
                status = ''not_found'', installed = False, working = False, version = None,
                path = None, check_type = ''directory'',
                issues = [\<lparr>issue_level = ''error'',
                           issue_message = ''Command Line Tools not installed'',
                           issue_fix = Some ''xcode-select --install''\<rparr>],
                installation = Some \<lparr>inst_method = Some ''xcode-select'',
                                      inst_command = Some ''xcode-select --install'',
                                      inst_url = None, inst_notes = None\<rparr>\<rparr>)"

definition check_xcodebuild :: "host \<Rightarrow> py_error + tool_result option" where
  "check_xcodebuild h =
     (case run_command h [''xcodebuild'', ''-version''] True of
        (success, stdout, stderr) \<Rightarrow>
          if success
          then (case extract_version h stdout None of
                  Inl e \<Rightarrow> Inl e
                | Inr ver \<Rightarrow>
                    Inr (Some \<lparr>tool_id = ''xcodebuild'', name = ''xcodebuild'', category = ''required'',
                          status = ''found'', installed = True, working = True, version = ver,
                          path = None, check_type = ''command'', issues = [],
                          installation = None\<rparr>))
          else Inr (Some \<lparr>tool_id = ''xcodebuild'', name = ''xcodebuild'', category = ''required'',
                 status = ''error'', installed = (which h ''xcodebuild'' \<noteq> None),
                 working = False, version = None, path = None, check_type = ''command'',
                 issues = (if contains ''requires Xcode'' stderr
                           then [\<lparr>issue_level = ''error'',
                                  issue_message = ''xcodebuild requires Xcode but only Command Line Tools installed'',
                                  issue_fix = Some ''Install full Xcode from Mac App Store''\<rparr>]
                           else [\<lparr>issue_level = ''error'',
                                  issue_message = ''xcodebuild not working: '' @ stderr,
                                  issue_fix = Some ''Check Xcode installation''\<rparr>]),
                 installation = (if contains ''requires Xcode'' stderr
                                 then Some \<lparr>inst_method = Some ''Install Xcode'', inst_command = None,
                                            inst_url = Some xcode_store_url, inst_notes = None\<rparr>
                                 else None)\<rparr>))"

section \<open>The generic strategies and the dispatch\<close>

text \<open>
  The loop \<open>for path in paths: if Path(path).exists(): return ...\<close>. A candidate on
  which \<open>exists\<close> raises ends the loop, and the check, with the exception; the candidates
  after the first existing one are never probed.
\<close>

fun first_existing :: "host \<Rightarrow> string list \<Rightarrow> py_error + string option" where
  "first_existing h [] = Inr None"
| "first_existing h (p # ps) =
     (case path_exists h p of
        ExistsRaises \<Rightarrow> Inl OSError
      | Present \<Rightarrow> Inr (Some p)
      | Absent \<Rightarrow> first_existing h ps)"

definition check_framework :: "host \<Rightarrow> string \<Rightarrow> string list \<Rightarrow> py_error + tool_result" where
  "check_framework h framework_name paths =
     (case first_existing h paths of
        Inl e \<Rightarrow> Inl e
      | Inr (Some p) \<Rightarrow> Inr
          \<lparr>tool_id = replace_space (lower framework_name), name = framework_name,
           category = ''project-specific'', status = ''found'', installed = True, working = True,
           version = None, path = Some p, check_type = ''framework'', issues = [],
           installation = None\<rparr>
      | Inr None \<Rightarrow> Inr
          \<lparr>tool_id = replace_space (lower framework_name), name = framework_name,
           category = ''project-specific'', status = ''not_found'', installed = False,
           working = False, version = None, path = None, check_type = ''framework'',
           issues = [\<lparr>issue_level = ''warning'', issue_message = framework_name @ '' not found'',
                      issue_fix = Some ''May require Xcode or macOS SDK installation''\<rparr>],
           installation = None\<rparr>)"

text \<open>\<open>tool_config["check"][key]\<close>: a missing section or key raises \<open>KeyError\<close>.\<close>

definition check_key :: "tool_config \<Rightarrow> (check_cfg \<Rightarrow> 'a option) \<Rightarrow> string \<Rightarrow> py_error + 'a" where
  "check_key tc sel key =
     (case cfg_check tc of
        None \<Rightarrow> Inl (KeyError ''check'')
      | Some ck \<Rightarrow> (case sel ck of None \<Rightarrow> Inl (KeyError key) | Some v \<Rightarrow> Inr v))"

definition check_get :: "tool_config \<Rightarrow> (check_cfg \<Rightarrow> 'a option) \<Rightarrow> 'a option" where
  "check_get tc sel = (case cfg_check tc of None \<Rightarrow> None | Some ck \<Rightarrow> sel ck)"

definition config_check_type :: "tool_config \<Rightarrow> string" where
  "config_check_type tc = (case check_get tc ck_type of None \<Rightarrow> ''command'' | Some t \<Rightarrow> t)"

definition unknown_result :: "tool_config \<Rightarrow> string \<Rightarrow> tool_result" where
  "unknown_result tc ct =
     \<lparr>tool_id = cfg_id tc, name = cfg_name tc, category = cfg_category tc, status = ''error'',
      installed = False, working = False, version = None, path = None, check_type = ct,
      issues = [\<lparr>issue_level = ''error'', issue_message = ''Unknown check type: '' @ ct,
                 issue_fix = None\<rparr>],
      installation = None\<rparr>"

definition command_result ::
  "tool_config \<Rightarrow> bool \<Rightarrow> string option \<Rightarrow> string option \<Rightarrow> tool_result" where
  "command_result tc exists ver p =
     (let inst = (if \<not> exists
                  then (case cfg_installation tc of None \<Rightarrow> None | Some sec \<Rightarrow> primary sec)
                  else None)
      in \<lparr>tool_id = cfg_id tc, name = cfg_name tc, category = cfg_category tc,
          status = (if exists then ''found'' else ''not_found''),
          installed = exists, working = exists, version = ver, path = p,
          check_type = ''command'',
          issues = (if exists then []
                    else [\<lparr>issue_level = (if cfg_category tc = ''required'' then ''error'' else ''warning''),
                           issue_message = cfg_name tc @ '' not found'',
                           issue_fix = (case inst of
                                          None \<Rightarrow> None
                                        | Some i \<Rightarrow> if inst_nonempty i then inst_command i else None)\<rparr>]),
          installation = inst\<rparr>)"

definition directory_result :: "host \<Rightarrow> tool_config \<Rightarrow> string list \<Rightarrow> py_error + tool_result" where
  "directory_result h tc paths =
     (case first_existing h paths of
        Inl e \<Rightarrow> Inl e
      | Inr (Some p) \<Rightarrow> Inr
          \<lparr>tool_id = cfg_id tc, name = cfg_name tc, category = cfg_category tc, status = ''found'',
           installed = True, working = True, version = None, path = Some p,
           check_type = ''directory'', issues = [], installation = None\<rparr>
      | Inr None \<Rightarrow> Inr
          \<lparr>tool_id = cfg_id tc, name = cfg_name tc, category = cfg_category tc,
           status = ''not_found'', installed = False, working = False, version = None,
           path = None, check_type = ''directory'', issues = [], installation = None\<rparr>)"

definition check_tool :: "host \<Rightarrow> tool_config \<Rightarrow> py_error + tool_result option" where
  "check_tool h tc =
     (let ct = config_check_type tc
      in if ct = ''custom''
         then (case check_key tc ck_function ''function'' of
                 Inl e \<Rightarrow> Inl e
               | Inr function_name \<Rightarrow>
                   if function_name = ''check_xcode'' then check_xcode h
                   else if function_name = ''check_xcode_clt'' then Inr (Some (check_xcode_clt h))
                   else if function_name = ''check_xcodebuild'' then check_xcodebuild h
                   else Inr (Some (unknown_result tc ct)))
         else if ct = ''command''
         then (case check_key tc ck_command ''command'' of
                 Inl e \<Rightarrow> Inl e
               | Inr command \<Rightarrow>
                   let version_flag = (case check_get tc ck_version_flag of
                                         None \<Rightarrow> ''--version'' | Some f \<Rightarrow> f);
                       version_regex = check_get tc ck_version_regex
                   in (case check_command h command version_flag version_regex of
                         Inl e \<Rightarrow> Inl e
                       | Inr (exists, ver, p) \<Rightarrow> Inr (Some (command_result tc exists ver p))))
         else if ct = ''directory''
         then (case check_key tc ck_paths ''paths'' of
                 Inl e \<Rightarrow> Inl e
               | Inr paths \<Rightarrow>
                   (case directory_result h tc paths of Inl e \<Rightarrow> Inl e | Inr r \<Rightarrow> Inr (Some r)))
         else if ct = ''framework''
         then (case check_key tc ck_paths ''paths'' of
                 Inl e \<Rightarrow> Inl e
               | Inr paths \<Rightarrow>
                   (case check_framework h (cfg_name tc) paths of
                      Inl e \<Rightarrow> Inl e
                    | Inr r \<Rightarrow> Inr (Some r)))
         else Inr (Some (unknown_result tc ct)))"

section \<open>The aggregator\<close>

definition critical_action :: "tool_result \<Rightarrow> string option" where
  "critical_action tool =
     (case installation tool of
        None \<Rightarrow> None
      | Some i \<Rightarrow> if inst_nonempty i then py_or (inst_command i) (inst_url i) else None)"

definition low_action :: "tool_result \<Rightarrow> string option" where
  "low_action tool =
     (case installation tool of
        None \<Rightarrow> None
      | Some i \<Rightarrow> if inst_nonempty i then inst_command i else None)"

fun critical_pass :: "tool_result list \<Rightarrow> recommendation list" where
  "critical_pass [] = []"
| "critical_pass (tool # rest) =
     (if category tool = ''required'' \<and> \<not> working tool
      then \<lparr>priority = ''critical'',
            message = ''Install '' @ name tool @ '' - required for building'',
            action = critical_action tool\<rparr> # critical_pass rest
      else critical_pass rest)"

fun low_pass :: "tool_result list \<Rightarrow> recommendation list" where
  "low_pass [] = []"
| "low_pass (tool # rest) =
     (if category tool = ''optional'' \<and> \<not> working tool
      then \<lparr>priority = ''low'', message = ''Consider installing '' @ name tool,
            action = low_action tool\<rparr> # low_pass rest
      else low_pass rest)"

definition generate_recommendations :: "tool_result list \<Rightarrow> recommendation list" where
  "generate_recommendations results = critical_pass results @ low_pass results"

text \<open>
  The loop of \<open>run_checks\<close> over the configured descriptors. An exception of
  \<open>check_tool\<close> ends the run, and so does \<open>asdict\<close> on a \<open>None\<close> result, with a
  \<open>TypeError\<close>.
\<close>

fun check_all :: "host \<Rightarrow> tool_config list \<Rightarrow> py_error + tool_result list" where
  "check_all h [] = Inr []"
| "check_all h (tool # rest) =
     (case check_tool h tool of
        Inl e \<Rightarrow> Inl e
      | Inr None \<Rightarrow> Inl TypeError
      | Inr (Some r) \<Rightarrow>
          (case check_all h rest of Inl e \<Rightarrow> Inl e | Inr rs \<Rightarrow> Inr (r # rs)))"

text \<open>The report without its timestamp and system block, which no check reads.\<close>

definition summarize :: "tool_result list \<Rightarrow> report" where
  "summarize results =
     (let required_tools = filter (\<lambda>r. category r = ''required'') results;
          optional_tools = filter (\<lambda>r. category r = ''optional'') results
      in \<lparr>all_required_present = list_all working required_tools,
          required_count = length required_tools,
          required_present = length (filter working required_tools),
          optional_count = length optional_tools,
          optional_present = length (filter working optional_tools),
          tools = results,
          recommendations = generate_recommendations results\<rparr>)"

definition run_checks :: "host \<Rightarrow> tool_config list \<Rightarrow> py_error + report" where
  "run_checks h cfgs =
     (case check_all h cfgs of Inl e \<Rightarrow> Inl e | Inr results \<Rightarrow> Inr (summarize results))"

section \<open>Well-formed descriptors\<close>

text \<open>
  A descriptor is well formed when the keys its strategy reads are there. A pattern
  compiles on a host when \<open>re.search\<close> never raises on it. The candidate paths are
  probed quietly when \<open>exists\<close> raises on none of the candidates that the loop reaches,
  those up to the first existing one. \<open>xcode_unreported\<close> is the state of the machine in
  which \<open>check_xcode\<close> returns nothing.
\<close>

fun probes_quietly :: "host \<Rightarrow> string list \<Rightarrow> bool" where
  "probes_quietly h [] = True"
| "probes_quietly h (p # ps) =
     (case path_exists h p of
        ExistsRaises \<Rightarrow> False
      | Present \<Rightarrow> True
      | Absent \<Rightarrow> probes_quietly h ps)"

definition paths_probed_quietly :: "host \<Rightarrow> tool_config \<Rightarrow> bool" where
  "paths_probed_quietly h tc =
     (let ct = config_check_type tc
      in (ct = ''directory'' \<or> ct = ''framework'' \<longrightarrow>
            (case check_get tc ck_paths of None \<Rightarrow> True | Some ps \<Rightarrow> probes_quietly h ps)) \<and>
         (ct = ''custom'' \<and> check_get tc ck_function = Some ''check_xcode'' \<longrightarrow>
            path_exists h xcode_app \<noteq> ExistsRaises))"

definition well_formed :: "tool_config \<Rightarrow> bool" where
  "well_formed tc =
     (let ct = config_check_type tc
      in (ct = ''custom'' \<longrightarrow> check_get tc ck_function \<noteq> None) \<and>
         (ct = ''command'' \<longrightarrow> check_get tc ck_command \<noteq> None) \<and>
         (ct = ''directory'' \<or> ct = ''framework'' \<longrightarrow> check_get tc ck_paths \<noteq> None))"

definition pattern_compiles :: "host \<Rightarrow> tool_config \<Rightarrow> bool" where
  "pattern_compiles h tc =
     (case check_get tc ck_version_regex of
        None \<Rightarrow> True
      | Some r \<Rightarrow> \<forall>output. re_search h r output \<noteq> ReError)"

definition xcode_unreported :: "host \<Rightarrow> bool" where
  "xcode_unreported h =
     (path_exists h xcode_app = Present \<and>
      selected ''Xcode.app''
        (case run_command h [''xcode-select'', ''-p''] False of
           (success, stdout, stderr) \<Rightarrow> if success then Some (strip stdout) else None) \<and>
      \<not> fst (run_command h [''xcodebuild'', ''-version''] True))"

definition probe_ok :: "host \<Rightarrow> tool_config \<Rightarrow> bool" where
  "probe_ok h tc =
     (well_formed tc \<and> pattern_compiles h tc \<and> paths_probed_quietly h tc \<and>
      \<not> (config_check_type tc = ''custom'' \<and> check_get tc ck_function = Some ''check_xcode'' \<and>
         xcode_unreported h))"

definition recognized_routine :: "string \<Rightarrow> bool" where
  "recognized_routine f = (f = ''check_xcode'' \<or> f = ''check_xcode_clt'' \<or> f = ''check_xcodebuild'')"

section \<open>Version extraction as the specification words it\<close>

text \<open>
  This definition follows the words of the specification, not the source: the custom
  pattern is tried first (first capturing group if the pattern has groups, else the whole
  match); without a custom pattern or without a match, the three default patterns are
  tried in order; the first match found is returned, or no version.
\<close>

definition spec_extract_version :: "host \<Rightarrow> string \<Rightarrow> string option \<Rightarrow> string option" where
  "spec_extract_version h output regex =
     (case (case regex of None \<Rightarrow> NoMatch | Some r \<Rightarrow> re_search h r output) of
        Match g0 gs \<Rightarrow> (case gs of [] \<Rightarrow> Some g0 | g1 # _ \<Rightarrow> g1)
      | _ \<Rightarrow> first_pattern default_patterns output)"

section \<open>Concrete machines and descriptors\<close>

text \<open>A machine with nothing on it: no executable resolves, no path exists.\<close>

definition bare_host :: host where
  "bare_host = \<lparr>which = (\<lambda>c. None), run = (\<lambda>cmd. FileNotFoundError),
                 path_exists = (\<lambda>p. Absent), re_search = (\<lambda>r s. NoMatch)\<rparr>"

definition no_check :: check_cfg where
  "no_check = \<lparr>ck_type = None, ck_function = None, ck_command = None, ck_version_flag = None,
                ck_version_regex = None, ck_paths = None\<rparr>"

definition widget_cfg :: tool_config where
  "widget_cfg =
     \<lparr>cfg_id = ''widget'', cfg_name = ''Widget'', cfg_category = ''required'',
      cfg_check = Some (no_check\<lparr>ck_type := Some ''command'', ck_command := Some ''widget''\<rparr>),
      cfg_installation = Some \<lparr>primary = Some \<lparr>inst_method = Some ''Homebrew'',
                                                  inst_command = Some ''brew install widget'',
                                                  inst_url = None, inst_notes = None\<rparr>\<rparr>\<rparr>"

definition widget_missing :: tool_result where
  "widget_missing =
     \<lparr>tool_id = ''widget'', name = ''Widget'', category = ''required'', status = ''not_found'',
      installed = False, working = False, version = None, path = None, check_type = ''command'',
      issues = [\<lparr>issue_level = ''error'', issue_message = ''Widget not found'',
                 issue_fix = Some ''brew install widget''\<rparr>],
      installation = Some \<lparr>inst_method = Some ''Homebrew'',
                            inst_command = Some ''brew install widget'',
                            inst_url = None, inst_notes = None\<rparr>\<rparr>"

definition metal_cfg :: tool_config where
  "metal_cfg =
     \<lparr>cfg_id = ''mps'', cfg_name = ''Metal Performance Shaders'', cfg_category = ''optional'',
      cfg_check = Some (no_check\<lparr>ck_type := Some ''framework'',
                                 ck_paths := Some [''/System/Library/Frameworks/MetalPerformanceShaders.framework'']\<rparr>),
      cfg_installation = None\<rparr>"

text \<open>A machine on which two of the candidate directories exist.\<close>

definition sdk_host :: host where
  "sdk_host = bare_host\<lparr>path_exists := (\<lambda>p. if p = ''/opt/sdk'' \<or> p = ''/usr/local/sdk''
                                                then Present else Absent)\<rparr>"

definition sdk_cfg :: tool_config where
  "sdk_cfg =
     \<lparr>cfg_id = ''sdk'', cfg_name = ''Platform SDK'', cfg_category = ''required'',
      cfg_check = Some (no_check\<lparr>ck_type := Some ''directory'',
                                 ck_paths := Some [''/does/not/exist'', ''/opt/sdk'', ''/usr/local/sdk'']\<rparr>),
      cfg_installation = None\<rparr>"

definition registry_cfg :: tool_config where
  "registry_cfg =
     \<lparr>cfg_id = ''reg'', cfg_name = ''Registry'', cfg_category = ''optional'',
      cfg_check = Some (no_check\<lparr>ck_type := Some ''registry''\<rparr>),
      cfg_installation = None\<rparr>"

definition swift_cfg :: tool_config where
  "swift_cfg =
     \<lparr>cfg_id = ''swift'', cfg_name = ''Swift'', cfg_category = ''required'',
      cfg_check = Some (no_check\<lparr>ck_type := Some ''custom'', ck_function := Some ''check_swift''\<rparr>),
      cfg_installation = None\<rparr>"

text \<open>A machine on which the framework of \<open>metal_cfg\<close> is installed.\<close>

definition metal_host :: host where
  "metal_host =
     bare_host\<lparr>path_exists := (\<lambda>p. if p = ''/System/Library/Frameworks/MetalPerformanceShaders.framework''
                                    then Present else Absent)\<rparr>"

definition metal_found :: tool_result where
  "metal_found =
     \<lparr>tool_id = ''metal_performance_shaders'', name = ''Metal Performance Shaders'',
      category = ''project-specific'', status = ''found'', installed = True,
      working = True, version = None,
      path = Some ''/System/Library/Frameworks/MetalPerformanceShaders.framework'',
      check_type = ''framework'', issues = [], installation = None\<rparr>"

definition metal_missing :: tool_result where
  "metal_missing =
     \<lparr>tool_id = ''metal_performance_shaders'', name = ''Metal Performance Shaders'',
      category = ''project-specific'', status = ''not_found'', installed = False,
      working = False, version = None, path = None, check_type = ''framework'',
      issues = [\<lparr>issue_level = ''warning'',
                 issue_message = ''Metal Performance Shaders not found'',
                 issue_fix = Some ''May require Xcode or macOS SDK installation''\<rparr>],
      installation = None\<rparr>"

text \<open>
  A machine on which \<open>/tmp\<close> exists and \<open>exists\<close> raises on a path whose one
  component has 256 characters (\<open>stat\<close> fails there with "file name too long"), and a
  directory descriptor whose candidates are that path and \<open>/tmp\<close>.
\<close>

definition long_path :: string where
  "long_path = CHR ''/'' # replicate 256 (CHR ''a'')"

definition longname_host :: host where
  "longname_host =
     bare_host\<lparr>path_exists := (\<lambda>p. if p = long_path then ExistsRaises
                                    else if p = ''/tmp'' then Present else Absent)\<rparr>"

definition scratch_cfg :: tool_config where
  "scratch_cfg =
     \<lparr>cfg_id = ''scratch'', cfg_name = ''Scratch directory'', cfg_category = ''optional'',
      cfg_check = Some (no_check\<lparr>ck_type := Some ''directory'',
                                 ck_paths := Some [long_path, ''/tmp'']\<rparr>),
      cfg_installation = None\<rparr>"

text \<open>
  A machine on which \<open>gadget\<close> resolves on the search path and every command runs into
  the timeout.
\<close>

definition slow_host :: host where
  "slow_host = bare_host\<lparr>which := (\<lambda>c. if c = ''gadget'' then Some ''/usr/local/bin/gadget'' else None),
                         run := (\<lambda>cmd. TimeoutExpired)\<rparr>"

definition gadget_cfg :: tool_config where
  "gadget_cfg =
     \<lparr>cfg_id = ''gadget'', cfg_name = ''Gadget'', cfg_category = ''optional'',
      cfg_check = Some (no_check\<lparr>ck_type := Some ''command'', ck_command := Some ''gadget''\<rparr>),
      cfg_installation = None\<rparr>"

definition gadget_found :: tool_result where
  "gadget_found =
     \<lparr>tool_id = ''gadget'', name = ''Gadget'', category = ''optional'', status = ''found'',
      installed = True, working = True, version = None, path = Some ''/usr/local/bin/gadget'',
      check_type = ''command'', issues = [], installation = None\<rparr>"

text \<open>
  A machine on which \<open>gadget\<close> resolves, \<open>gadget --version\<close> exits with status 1 and
  prints nothing, and \<open>gadget -v\<close> prints the version.
\<close>

definition flag_host :: host where
  "flag_host = bare_host\<lparr>which := (\<lambda>c. if c = ''gadget'' then Some ''/usr/local/bin/gadget'' else None),
                         run := (\<lambda>cmd. if cmd = [''gadget'', ''--version''] then Completed 1 '''' ''''
                                        else if cmd = [''gadget'', ''-v''] then Completed 0 ''gadget 2.0.0'' ''''
                                        else FileNotFoundError)\<rparr>"

text \<open>
  A machine with Xcode in place and selected, on which \<open>xcodebuild -version\<close> exits with
  status 1.
\<close>

definition broken_xcode_host :: host where
  "broken_xcode_host =
     bare_host\<lparr>path_exists := (\<lambda>p. if p = ''/Applications/Xcode.app'' then Present else Absent),
               run := (\<lambda>cmd. if cmd = [''xcode-select'', ''-p'']
                               then Completed 0 ''/Applications/Xcode.app/Contents/Developer'' ''''
                               else Completed 1 '''' ''xcodebuild: error'')\<rparr>"

definition xcode_cfg :: tool_config where
  "xcode_cfg =
     \<lparr>cfg_id = ''xcode'', cfg_name = ''Xcode'', cfg_category = ''required'',
      cfg_check = Some (no_check\<lparr>ck_type := Some ''custom'', ck_function := Some ''check_xcode''\<rparr>),
      cfg_installation = None\<rparr>"

text \<open>
  A machine whose \<open>re_search\<close> stands for \<open>re.search\<close> on the one pattern used
  with it, \<open>.*\<close>: the match is the text up to the first line break and has no group.
\<close>

definition dotstar_host :: host where
  "dotstar_host =
     bare_host\<lparr>re_search := (\<lambda>r s. if r = ''.*''
                                   then Match (takeWhile (\<lambda>c. c \<noteq> CHR 0x0A) s) []
                                   else NoMatch)\<rparr>"

text \<open>
  An optional tool that is not working and whose installation hint has a URL and no
  command, and the same tool as a required one.
\<close>

definition gizmo_missing :: tool_result where
  "gizmo_missing =
     \<lparr>tool_id = ''gizmo'', name = ''Gizmo'', category = ''optional'', status = ''not_found'',
      installed = False, working = False, version = None, path = None, check_type = ''command'',
      issues = [\<lparr>issue_level = ''warning'', issue_message = ''Gizmo not found'',
                 issue_fix = None\<rparr>],
      installation = Some \<lparr>inst_method = Some ''Download'', inst_command = None,
                            inst_url = Some ''https://example.org/gizmo'', inst_notes = None\<rparr>\<rparr>"

definition gizmo_cfg :: tool_config where
  "gizmo_cfg =
     \<lparr>cfg_id = ''gizmo'', cfg_name = ''Gizmo'', cfg_category = ''optional'',
      cfg_check = Some (no_check\<lparr>ck_type := Some ''command'', ck_command := Some ''gizmo''\<rparr>),
      cfg_installation = Some \<lparr>primary = Some \<lparr>inst_method = Some ''Download'',
                                                  inst_command = None,
                                                  inst_url = Some ''https://example.org/gizmo'',
                                                  inst_notes = None\<rparr>\<rparr>\<rparr>"

section \<open>What every result has\<close>

lemma check_xcode_props:
  assumes "check_xcode h = Inr (Some r)"
  shows "category r = ''required''" and "\<not> installed r \<Longrightarrow> \<not> working r"
    and "status r = ''not_found'' \<Longrightarrow> \<not> working r"
  using assms
  by (auto simp: check_xcode_def Let_def
      split: prod.splits if_splits sum.splits exists_outcome.splits)

lemma check_xcode_clt_props:
  shows "category (check_xcode_clt h) = ''required''"
    and "\<not> installed (check_xcode_clt h) \<Longrightarrow> \<not> working (check_xcode_clt h)"
    and "status (check_xcode_clt h) = ''not_found'' \<Longrightarrow> \<not> working (check_xcode_clt h)"
  by (auto simp: check_xcode_clt_def split: prod.splits if_splits)

lemma check_xcodebuild_props:
  assumes "check_xcodebuild h = Inr (Some r)"
  shows "category r = ''required''" and "\<not> installed r \<Longrightarrow> \<not> working r"
    and "status r = ''not_found'' \<Longrightarrow> \<not> working r"
  using assms
  by (auto simp: check_xcodebuild_def split: prod.splits if_splits sum.splits)

lemma command_result_props:
  shows "category (command_result tc e v p) = cfg_category tc"
    and "\<not> installed (command_result tc e v p) \<Longrightarrow> \<not> working (command_result tc e v p)"
    and "status (command_result tc e v p) = ''not_found'' \<Longrightarrow> \<not> working (command_result tc e v p)"
  by (auto simp: command_result_def Let_def split: if_splits)

lemma directory_result_props:
  assumes "directory_result h tc ps = Inr r"
  shows "category r = cfg_category tc" and "\<not> installed r \<Longrightarrow> \<not> working r"
    and "status r = ''not_found'' \<Longrightarrow> \<not> working r"
  using assms
  by (auto simp: directory_result_def split: option.splits sum.splits)

lemma check_framework_props:
  assumes "check_framework h n ps = Inr r"
  shows "category r = ''project-specific''" and "\<not> installed r \<Longrightarrow> \<not> working r"
    and "status r = ''not_found'' \<Longrightarrow> \<not> working r"
  using assms
  by (auto simp: check_framework_def split: option.splits sum.splits)

lemma unknown_result_props:
  shows "category (unknown_result tc ct) = cfg_category tc"
    and "\<not> working (unknown_result tc ct)"
  by (simp_all add: unknown_result_def)

text \<open>Every result of \<open>check_tool\<close> comes from one of seven constructors.\<close>

lemma check_tool_cases:
  assumes "check_tool h tc = Inr (Some r)"
  shows "check_xcode h = Inr (Some r) \<or> r = check_xcode_clt h \<or> check_xcodebuild h = Inr (Some r)
         \<or> (\<exists>e v p. r = command_result tc e v p)
         \<or> (\<exists>ps. directory_result h tc ps = Inr r)
         \<or> (\<exists>ps. check_framework h (cfg_name tc) ps = Inr r)
         \<or> r = unknown_result tc (config_check_type tc)"
  using assms
  by (auto simp: check_tool_def Let_def split: if_splits sum.splits prod.splits)

lemma check_tool_installed_working:
  assumes "check_tool h tc = Inr (Some r)" and "\<not> installed r"
  shows "\<not> working r"
  using check_tool_cases [OF assms(1)] assms(2)
    check_xcode_props(2) check_xcode_clt_props(2) check_xcodebuild_props(2)
    command_result_props(2) directory_result_props(2) check_framework_props(2)
    unknown_result_props(2)
  by metis

lemma check_tool_not_found_not_working:
  assumes "check_tool h tc = Inr (Some r)" and "status r = ''not_found''"
  shows "\<not> working r"
  using check_tool_cases [OF assms(1)] assms(2)
    check_xcode_props(3) check_xcode_clt_props(3) check_xcodebuild_props(3)
    command_result_props(3) directory_result_props(3) check_framework_props(3)
    unknown_result_props(2)
  by metis

lemma widget_on_bare_host: "check_tool bare_host widget_cfg = Inr (Some widget_missing)"
  by (simp add: check_tool_def config_check_type_def check_get_def check_key_def widget_cfg_def
      no_check_def bare_host_def check_command_def command_result_def widget_missing_def
      inst_nonempty_def)

text \<open>
  Claim C2. Every result produced by a check operation, through the dispatch of
  \<open>check_tool\<close> (command, directory and framework strategies, the unknown-strategy error
  path, the custom routines) or by one of the routines \<open>check_xcode\<close>,
  \<open>check_xcode_clt\<close>, \<open>check_xcodebuild\<close> called directly, satisfies: not installed
  implies not working.
\<close>

theorem installed_false_implies_working_false:
  assumes "check_tool h tc = Inr (Some r) \<or> check_xcode h = Inr (Some r)
           \<or> check_xcode_clt h = r \<or> check_xcodebuild h = Inr (Some r)"
    and "\<not> installed r"
  shows "\<not> working r"
  using assms check_tool_installed_working check_xcode_props(2) check_xcode_clt_props(2)
    check_xcodebuild_props(2)
  by metis

theorem installed_false_implies_working_false_witness:
  "check_tool bare_host widget_cfg = Inr (Some widget_missing)
   \<and> \<not> installed widget_missing \<and> \<not> working widget_missing"
proof -
  have a: "check_tool bare_host widget_cfg = Inr (Some widget_missing)"
    by (rule widget_on_bare_host)
  have b: "\<not> installed widget_missing"
    by (simp add: widget_missing_def)
  from installed_false_implies_working_false [of bare_host widget_cfg widget_missing] a b
  show ?thesis by blast
qed

section \<open>The directory strategy\<close>

lemma first_existing_Some:
  "first_existing h ps = Inr (Some p) \<Longrightarrow>
   \<exists>i<length ps. p = ps ! i \<and> path_exists h p = Present \<and>
      (\<forall>j<i. path_exists h (ps ! j) = Absent)"
proof (induction ps)
  case Nil
  then show ?case by simp
next
  case (Cons a ps)
  show ?case
  proof (cases "path_exists h a")
    case Present
    with Cons.prems have "p = a" by simp
    with Present show ?thesis by auto
  next
    case Absent
    with Cons.prems have "first_existing h ps = Inr (Some p)" by simp
    from Cons.IH [OF this] obtain i where i: "i < length ps" "p = ps ! i"
      "path_exists h p = Present" "\<forall>j<i. path_exists h (ps ! j) = Absent" by blast
    have "\<forall>j<Suc i. path_exists h ((a # ps) ! j) = Absent"
      using Absent i(4) by (auto simp: less_Suc_eq_0_disj)
    with i show ?thesis by (intro exI [of _ "Suc i"]) auto
  next
    case ExistsRaises
    with Cons.prems show ?thesis by simp
  qed
qed

lemma first_existing_None:
  "first_existing h ps = Inr None \<longleftrightarrow> (\<forall>p\<in>set ps. path_exists h p = Absent)"
  by (induction ps) (auto split: exists_outcome.splits)

lemma probes_quietly_returns:
  "probes_quietly h ps \<longleftrightarrow> (\<exists>f. first_existing h ps = Inr f)"
  by (induction ps) (auto split: exists_outcome.splits)

lemma first_existing_raises:
  "\<not> probes_quietly h ps \<longleftrightarrow> first_existing h ps = Inl OSError"
  by (induction ps) (auto split: exists_outcome.splits)

lemma probes_quietly_iff:
  "probes_quietly h ps \<longleftrightarrow>
     (\<forall>i<length ps. path_exists h (ps ! i) = ExistsRaises \<longrightarrow>
        (\<exists>j<i. path_exists h (ps ! j) = Present))"
  by (induction ps) (auto simp: All_less_Suc2 Ex_less_Suc2 split: exists_outcome.splits)


lemma check_tool_directory:
  assumes "config_check_type tc = ''directory''" and "check_get tc ck_paths = Some ps"
  shows "check_tool h tc =
           (case directory_result h tc ps of Inl e \<Rightarrow> Inl e | Inr r \<Rightarrow> Inr (Some r))"
proof -
  have "check_key tc ck_paths ''paths'' = Inr ps"
    using assms(2) by (auto simp: check_key_def check_get_def split: option.splits)
  with assms(1) show ?thesis by (simp add: check_tool_def)
qed

text \<open>When \<open>exists\<close> raises on a candidate that the loop reaches, so does the check.\<close>

lemma directory_probe_raises:
  assumes "config_check_type tc = ''directory''" and "check_get tc ck_paths = Some ps"
    and "\<not> probes_quietly h ps"
  shows "check_tool h tc = Inl OSError"
  using assms(3) check_tool_directory [OF assms(1,2), of h]
  by (simp add: first_existing_raises directory_result_def)

lemma tmp_is_not_long: "''/tmp'' \<noteq> long_path"
proof
  assume "''/tmp'' = long_path"
  then have "length ''/tmp'' = length long_path" by simp
  then show False by (simp add: long_path_def)
qed

text \<open>
  Claim C8, as stated, fails when \<open>exists\<close> raises on a candidate that stands before
  the first existing one: the second candidate exists, and the check raises \<open>OSError\<close>
  where the claim has a found result with that path.
\<close>

theorem directory_probe_raises_counterexample:
  "config_check_type scratch_cfg = ''directory''
   \<and> check_get scratch_cfg ck_paths = Some [long_path, ''/tmp'']
   \<and> path_exists longname_host long_path = ExistsRaises
   \<and> path_exists longname_host ''/tmp'' = Present
   \<and> check_tool longname_host scratch_cfg = Inl OSError"
  using tmp_is_not_long
  by (simp add: check_tool_def config_check_type_def check_get_def check_key_def scratch_cfg_def
      no_check_def longname_host_def bare_host_def directory_result_def)

text \<open>
  Claim C8, amended. For a directory-strategy descriptor with candidate paths \<open>ps\<close> such
  that \<open>exists\<close> raises on no candidate before an existing one has been reached, the
  check returns a result; when some candidate exists the result is found, installed and
  working with the path of the first existing candidate (every earlier candidate is
  absent); when none exists the result is not_found, not installed, not working and without
  path; and the result never carries a version.
\<close>

theorem directory_first_match:
  assumes "config_check_type tc = ''directory''" and "check_get tc ck_paths = Some ps"
    and "\<forall>i<length ps. path_exists h (ps ! i) = ExistsRaises \<longrightarrow>
           (\<exists>j<i. path_exists h (ps ! j) = Present)"
  shows "\<exists>r. check_tool h tc = Inr (Some r) \<and> version r = None \<and>
           (if \<exists>p\<in>set ps. path_exists h p = Present
            then status r = ''found'' \<and> installed r \<and> working r \<and>
                 (\<exists>i<length ps. path r = Some (ps ! i) \<and> path_exists h (ps ! i) = Present \<and>
                    (\<forall>j<i. path_exists h (ps ! j) = Absent))
            else status r = ''not_found'' \<and> \<not> installed r \<and> \<not> working r \<and> path r = None)"
proof -
  note run = check_tool_directory [OF assms(1,2), of h]
  from assms(3) have "probes_quietly h ps" by (simp add: probes_quietly_iff)
  then obtain f where f: "first_existing h ps = Inr f" by (auto simp: probes_quietly_returns)
  show ?thesis
  proof (cases f)
    case None
    with f have "\<not> (\<exists>p\<in>set ps. path_exists h p = Present)"
      using first_existing_None [of h ps] by auto
    with None f run show ?thesis by (simp add: directory_result_def)
  next
    case (Some p)
    with f have fp: "first_existing h ps = Inr (Some p)" by simp
    from first_existing_Some [OF fp] obtain i where i: "i < length ps" "p = ps ! i"
      "path_exists h p = Present" "\<forall>j<i. path_exists h (ps ! j) = Absent" by blast
    then have ex: "\<exists>p\<in>set ps. path_exists h p = Present" by auto
    show ?thesis using run fp ex i by (auto simp: directory_result_def)
  qed
qed

theorem directory_first_match_witness:
  "config_check_type sdk_cfg = ''directory''
   \<and> check_get sdk_cfg ck_paths = Some [''/does/not/exist'', ''/opt/sdk'', ''/usr/local/sdk'']
   \<and> probes_quietly sdk_host [''/does/not/exist'', ''/opt/sdk'', ''/usr/local/sdk'']
   \<and> path_exists sdk_host ''/opt/sdk'' = Present
   \<and> (\<exists>r. check_tool sdk_host sdk_cfg = Inr (Some r) \<and> version r = None \<and> status r = ''found'' \<and> installed r \<and> working r)"
proof -
  have a: "config_check_type sdk_cfg = ''directory''"
    by (simp add: config_check_type_def check_get_def sdk_cfg_def no_check_def)
  have b: "check_get sdk_cfg ck_paths = Some [''/does/not/exist'', ''/opt/sdk'', ''/usr/local/sdk'']"
    by (simp add: check_get_def sdk_cfg_def no_check_def)
  have q: "probes_quietly sdk_host [''/does/not/exist'', ''/opt/sdk'', ''/usr/local/sdk'']"
    by (simp add: sdk_host_def bare_host_def)
  have c: "path_exists sdk_host ''/opt/sdk'' = Present"
    by (simp add: sdk_host_def bare_host_def)
  then have d: "\<exists>p\<in>set [''/does/not/exist'', ''/opt/sdk'', ''/usr/local/sdk'']. path_exists sdk_host p = Present"
    by simp
  from directory_first_match [OF a b q [unfolded probes_quietly_iff]] d
  have "\<exists>r. check_tool sdk_host sdk_cfg = Inr (Some r) \<and> version r = None \<and>
          status r = ''found'' \<and> installed r \<and> working r"
    by auto
  with a b c q show ?thesis by blast
qed

lemma sdk_first_match:
  "map_option path (projr (check_tool sdk_host sdk_cfg)) = Some (Some ''/opt/sdk'')"
  by (simp add: check_tool_def config_check_type_def check_get_def check_key_def sdk_cfg_def
      no_check_def sdk_host_def bare_host_def directory_result_def)

section \<open>Unknown strategies\<close>

lemma unknown_result_fields:
  "status (unknown_result tc ct) = ''error''"
  "\<not> installed (unknown_result tc ct)"
  "tool_id (unknown_result tc ct) = cfg_id tc"
  "name (unknown_result tc ct) = cfg_name tc"
  "check_type (unknown_result tc ct) = ct"
  "issues (unknown_result tc ct) =
     [\<lparr>issue_level = ''error'', issue_message = ''Unknown check type: '' @ ct, issue_fix = None\<rparr>]"
  by (simp_all add: unknown_result_def)

lemma check_tool_unknown:
  assumes "(config_check_type tc \<noteq> ''custom'' \<and> config_check_type tc \<noteq> ''command'' \<and>
            config_check_type tc \<noteq> ''directory'' \<and> config_check_type tc \<noteq> ''framework'')
           \<or> (config_check_type tc = ''custom'' \<and> check_get tc ck_function = Some f \<and>
               \<not> recognized_routine f)"
  shows "check_tool h tc = Inr (Some (unknown_result tc (config_check_type tc)))"
  using assms
  by (auto simp: check_tool_def check_key_def check_get_def recognized_routine_def
      split: option.splits)

lemma check_all_append:
  "check_all h (xs @ ys) =
     (case check_all h xs of
        Inl e \<Rightarrow> Inl e
      | Inr rs1 \<Rightarrow> (case check_all h ys of Inl e \<Rightarrow> Inl e | Inr rs2 \<Rightarrow> Inr (rs1 @ rs2)))"
  by (induction xs) (auto split: sum.splits option.splits)

text \<open>
  Claim C9. A descriptor whose check-strategy tag is none of custom, command, directory,
  framework, and a custom descriptor whose routine name is none of the three recognized
  routines, gets an error-status result with the descriptor's identifier, name and category
  and the single issue "Unknown check type: <tag>"; wherever the descriptor stands in the
  batch, the descriptors after it are still checked and its result stands between theirs
  and those of the descriptors before it.
\<close>

theorem unknown_check_type_is_error_result:
  assumes "(config_check_type tc \<noteq> ''custom'' \<and> config_check_type tc \<noteq> ''command'' \<and>
            config_check_type tc \<noteq> ''directory'' \<and> config_check_type tc \<noteq> ''framework'')
           \<or> (config_check_type tc = ''custom'' \<and> check_get tc ck_function = Some f \<and>
               \<not> recognized_routine f)"
  shows "\<exists>r. check_tool h tc = Inr (Some r) \<and> status r = ''error'' \<and>
           \<not> installed r \<and> \<not> working r \<and>
           tool_id r = cfg_id tc \<and> name r = cfg_name tc \<and> category r = cfg_category tc \<and>
           issues r = [\<lparr>issue_level = ''error'',
                        issue_message = ''Unknown check type: '' @ config_check_type tc,
                        issue_fix = None\<rparr>] \<and>
           check_all h (before @ tc # rest) =
             (case check_all h before of
                Inl e \<Rightarrow> Inl e
              | Inr rs1 \<Rightarrow> (case check_all h rest of
                              Inl e \<Rightarrow> Inl e
                            | Inr rs2 \<Rightarrow> Inr (rs1 @ r # rs2)))"
proof -
  have run: "check_tool h tc = Inr (Some (unknown_result tc (config_check_type tc)))"
    by (rule check_tool_unknown [OF assms])
  have batch: "check_all h (before @ tc # rest) =
             (case check_all h before of
                Inl e \<Rightarrow> Inl e
              | Inr rs1 \<Rightarrow> (case check_all h rest of
                              Inl e \<Rightarrow> Inl e
                            | Inr rs2 \<Rightarrow> Inr (rs1 @ unknown_result tc (config_check_type tc) # rs2)))"
    by (simp add: check_all_append run split: sum.splits)
  show ?thesis
    using run batch unknown_result_fields [of tc "config_check_type tc"]
      unknown_result_props [of tc "config_check_type tc"]
    by (intro exI [of _ "unknown_result tc (config_check_type tc)"]) simp
qed

theorem unknown_check_type_is_error_result_witness:
  "config_check_type registry_cfg = ''registry''
   \<and> config_check_type swift_cfg = ''custom'' \<and> check_get swift_cfg ck_function = Some ''check_swift''
   \<and> \<not> recognized_routine ''check_swift''
   \<and> (\<exists>r. check_tool bare_host registry_cfg = Inr (Some r) \<and> status r = ''error'' \<and>
          issues r = [\<lparr>issue_level = ''error'', issue_message = ''Unknown check type: registry'',
                       issue_fix = None\<rparr>] \<and>
          check_all bare_host ([widget_cfg] @ registry_cfg # [widget_cfg]) =
            Inr ([widget_missing] @ r # [widget_missing]))
   \<and> (\<exists>r. check_tool bare_host swift_cfg = Inr (Some r) \<and> status r = ''error'' \<and>
          issues r = [\<lparr>issue_level = ''error'', issue_message = ''Unknown check type: custom'',
                       issue_fix = None\<rparr>])"
proof -
  have a: "config_check_type registry_cfg = ''registry''"
    by (simp add: config_check_type_def check_get_def registry_cfg_def no_check_def)
  have b: "config_check_type swift_cfg = ''custom''"
    by (simp add: config_check_type_def check_get_def swift_cfg_def no_check_def)
  have c: "check_get swift_cfg ck_function = Some ''check_swift''"
    by (simp add: check_get_def swift_cfg_def no_check_def)
  have d: "\<not> recognized_routine ''check_swift''"
    by (simp add: recognized_routine_def)
  have w: "check_all bare_host [widget_cfg] = Inr [widget_missing]"
    by (simp add: widget_on_bare_host)
  have h1: "(config_check_type registry_cfg \<noteq> ''custom'' \<and> config_check_type registry_cfg \<noteq> ''command'' \<and>
            config_check_type registry_cfg \<noteq> ''directory'' \<and> config_check_type registry_cfg \<noteq> ''framework'')
           \<or> (config_check_type registry_cfg = ''custom'' \<and> check_get registry_cfg ck_function = Some f \<and>
               \<not> recognized_routine f)" for f
    by (simp add: a)
  have h2: "(config_check_type swift_cfg \<noteq> ''custom'' \<and> config_check_type swift_cfg \<noteq> ''command'' \<and>
            config_check_type swift_cfg \<noteq> ''directory'' \<and> config_check_type swift_cfg \<noteq> ''framework'')
           \<or> (config_check_type swift_cfg = ''custom'' \<and> check_get swift_cfg ck_function = Some ''check_swift'' \<and>
               \<not> recognized_routine ''check_swift'')"
    using b c d by simp
  from unknown_check_type_is_error_result [OF h1, of bare_host "[widget_cfg]" "[widget_cfg]"]
  have r1: "\<exists>r. check_tool bare_host registry_cfg = Inr (Some r) \<and> status r = ''error'' \<and>
          issues r = [\<lparr>issue_level = ''error'', issue_message = ''Unknown check type: registry'',
                       issue_fix = None\<rparr>] \<and>
          check_all bare_host ([widget_cfg] @ registry_cfg # [widget_cfg]) =
            Inr ([widget_missing] @ r # [widget_missing])"
    unfolding a w by auto
  from unknown_check_type_is_error_result [OF h2, of bare_host "[]" "[]"]
  have r2: "\<exists>r. check_tool bare_host swift_cfg = Inr (Some r) \<and> status r = ''error'' \<and>
          issues r = [\<lparr>issue_level = ''error'', issue_message = ''Unknown check type: custom'',
                       issue_fix = None\<rparr>]"
    unfolding b by auto
  from a b c d r1 r2 show ?thesis by blast
qed

section \<open>The framework strategy\<close>

lemma replace_space_no_space: "CHR '' '' \<notin> set (replace_space s)"
  by (induction s) (auto simp: replace_space_def)

lemma framework_id_length: "length (replace_space (lower s)) = length s"
  by (simp add: replace_space_def lower_def)

lemma check_tool_framework:
  assumes "config_check_type tc = ''framework''" and "check_get tc ck_paths = Some ps"
  shows "check_tool h tc =
           (case check_framework h (cfg_name tc) ps of Inl e \<Rightarrow> Inl e | Inr r \<Rightarrow> Inr (Some r))"
proof -
  have "check_key tc ck_paths ''paths'' = Inr ps"
    using assms(2) by (auto simp: check_key_def check_get_def split: option.splits)
  with assms(1) show ?thesis by (simp add: check_tool_def)
qed

lemma check_framework_returns:
  "probes_quietly h ps \<Longrightarrow> \<exists>r. check_framework h n ps = Inr r"
  by (auto simp: probes_quietly_returns check_framework_def split: option.splits)

lemma metal_on_bare_host: "check_tool bare_host metal_cfg = Inr (Some metal_missing)"
  by (simp add: check_tool_def config_check_type_def check_get_def check_key_def metal_cfg_def
      no_check_def bare_host_def check_framework_def metal_missing_def lower_def
      replace_space_def lower_char_def)

lemma metal_on_metal_host: "check_tool metal_host metal_cfg = Inr (Some metal_found)"
  by (simp add: check_tool_def config_check_type_def check_get_def check_key_def metal_cfg_def
      no_check_def metal_host_def bare_host_def check_framework_def metal_found_def lower_def
      replace_space_def lower_char_def Let_def)

text \<open>
  Claim C10. For a framework-strategy descriptor, every result that the check returns
  has as identifier the display name in lower case with every space replaced by an
  underscore, whatever the descriptor's own identifier is, in the found and in the
  not_found outcome alike; it has the length of the name and no space in it. (The check
  returns no result when \<open>exists\<close> raises on a candidate path.)
\<close>

theorem framework_id_from_name:
  assumes "config_check_type tc = ''framework''" and "check_get tc ck_paths = Some ps"
    and "check_tool h tc = Inr (Some r)"
  shows "tool_id r = replace_space (lower (cfg_name tc)) \<and>
         CHR '' '' \<notin> set (tool_id r) \<and> length (tool_id r) = length (cfg_name tc) \<and>
         (if \<exists>p\<in>set ps. path_exists h p = Present
          then status r = ''found'' else status r = ''not_found'')"
proof -
  from assms(3) check_tool_framework [OF assms(1,2), of h]
  have r: "check_framework h (cfg_name tc) ps = Inr r"
    by (auto split: sum.splits)
  then obtain f where f: "first_existing h ps = Inr f"
    by (auto simp: check_framework_def split: sum.splits)
  have ident: "tool_id r = replace_space (lower (cfg_name tc))"
    using r f by (auto simp: check_framework_def split: option.splits)
  have st: "if \<exists>p\<in>set ps. path_exists h p = Present
            then status r = ''found'' else status r = ''not_found''"
  proof (cases f)
    case None
    with f have ne: "\<not> (\<exists>p\<in>set ps. path_exists h p = Present)"
      using first_existing_None [of h ps] by auto
    show ?thesis using r f None ne by (auto simp: check_framework_def)
  next
    case (Some p)
    with f first_existing_Some [of h ps p]
    have ex: "\<exists>p\<in>set ps. path_exists h p = Present" by auto
    show ?thesis using r f Some ex by (auto simp: check_framework_def)
  qed
  show ?thesis
    using ident st replace_space_no_space [of "lower (cfg_name tc)"]
      framework_id_length [of "cfg_name tc"]
    by simp
qed

theorem framework_id_from_name_witness:
  "config_check_type metal_cfg = ''framework''
   \<and> check_get metal_cfg ck_paths = Some [''/System/Library/Frameworks/MetalPerformanceShaders.framework'']
   \<and> cfg_id metal_cfg = ''mps''
   \<and> check_tool bare_host metal_cfg = Inr (Some metal_missing)
   \<and> tool_id metal_missing = replace_space (lower ''Metal Performance Shaders'')
   \<and> status metal_missing = ''not_found''
   \<and> check_tool metal_host metal_cfg = Inr (Some metal_found)
   \<and> tool_id metal_found = replace_space (lower ''Metal Performance Shaders'')
   \<and> status metal_found = ''found''"
proof -
  have a: "config_check_type metal_cfg = ''framework''"
    by (simp add: config_check_type_def check_get_def metal_cfg_def no_check_def)
  have b: "check_get metal_cfg ck_paths = Some [''/System/Library/Frameworks/MetalPerformanceShaders.framework'']"
    by (simp add: check_get_def metal_cfg_def no_check_def)
  have c: "cfg_id metal_cfg = ''mps''" "cfg_name metal_cfg = ''Metal Performance Shaders''"
    by (simp_all add: metal_cfg_def)
  have d: "\<not> (\<exists>p\<in>set [''/System/Library/Frameworks/MetalPerformanceShaders.framework'']. path_exists bare_host p = Present)"
    by (simp add: bare_host_def)
  have e: "\<exists>p\<in>set [''/System/Library/Frameworks/MetalPerformanceShaders.framework'']. path_exists metal_host p = Present"
    by (simp add: metal_host_def bare_host_def)
  from framework_id_from_name [OF a b metal_on_bare_host] d
  have m: "tool_id metal_missing = replace_space (lower ''Metal Performance Shaders'')"
    "status metal_missing = ''not_found''"
    unfolding c by auto
  from framework_id_from_name [OF a b metal_on_metal_host] e
  have f: "tool_id metal_found = replace_space (lower ''Metal Performance Shaders'')"
    "status metal_found = ''found''"
    unfolding c by auto
  from a b c(1) m f metal_on_bare_host metal_on_metal_host show ?thesis by blast
qed

lemma metal_id: "replace_space (lower ''Metal Performance Shaders'') = ''metal_performance_shaders''"
  by (simp add: lower_def replace_space_def lower_char_def)

section \<open>The category of a result\<close>

text \<open>
  Claim C3, as stated, fails: the framework strategy does not read the descriptor's
  category. A framework descriptor of category optional gets a result of category
  project-specific.
\<close>

theorem category_not_copied_counterexample:
  "cfg_category metal_cfg = ''optional''
   \<and> check_tool bare_host metal_cfg = Inr (Some metal_missing)
   \<and> category metal_missing = ''project-specific''
   \<and> category metal_missing \<noteq> cfg_category metal_cfg"
  using metal_on_bare_host by (simp add: metal_cfg_def metal_missing_def)

text \<open>
  Claim C3, amended. The result of a framework descriptor has category project-specific,
  the result of a custom descriptor naming one of the three recognized routines has
  category required, and every other result (command and directory strategies, the
  unknown-strategy error path) has the category of its descriptor.
\<close>

theorem category_of_result:
  assumes "check_tool h tc = Inr (Some r)"
  shows "category r =
           (if config_check_type tc = ''framework'' then ''project-specific''
            else if config_check_type tc = ''custom'' \<and>
                    (\<exists>f. check_get tc ck_function = Some f \<and> recognized_routine f)
            then ''required''
            else cfg_category tc)"
  using assms check_xcode_props(1) [of h r] check_xcodebuild_props(1) [of h r]
    check_xcode_clt_props(1) [of h]
  by (auto simp: check_tool_def Let_def check_key_def check_get_def recognized_routine_def
      command_result_props(1) unknown_result_props(1)
      dest: directory_result_props(1) check_framework_props(1)
      split: if_splits sum.splits prod.splits option.splits)

theorem category_of_result_witness:
  "check_tool bare_host widget_cfg = Inr (Some widget_missing)
   \<and> config_check_type widget_cfg = ''command''
   \<and> category widget_missing = cfg_category widget_cfg"
proof -
  have a: "check_tool bare_host widget_cfg = Inr (Some widget_missing)"
    by (rule widget_on_bare_host)
  have b: "config_check_type widget_cfg = ''command''"
    by (simp add: config_check_type_def check_get_def widget_cfg_def no_check_def)
  from category_of_result [OF a] b a show ?thesis by simp
qed

section \<open>Missing required tools are recommended\<close>

lemma check_all_results:
  "check_all h cfgs = Inr rs \<Longrightarrow> r \<in> set rs \<Longrightarrow> \<exists>tc\<in>set cfgs. check_tool h tc = Inr (Some r)"
proof (induction cfgs arbitrary: rs)
  case Nil
  then show ?case by simp
next
  case (Cons tc cfgs)
  from Cons.prems(1) obtain r0 rs0 where
    r0: "check_tool h tc = Inr (Some r0)" and rs0: "check_all h cfgs = Inr rs0" and rs: "rs = r0 # rs0"
    by (auto split: sum.splits option.splits)
  show ?case
  proof (cases "r = r0")
    case True
    with r0 show ?thesis by auto
  next
    case False
    with Cons.prems(2) rs have "r \<in> set rs0" by simp
    from Cons.IH [OF rs0 this] show ?thesis by auto
  qed
qed

lemma critical_pass_member:
  "r \<in> set rs \<Longrightarrow> category r = ''required'' \<Longrightarrow> \<not> working r \<Longrightarrow>
   \<lparr>priority = ''critical'', message = ''Install '' @ name r @ '' - required for building'',
    action = critical_action r\<rparr> \<in> set (critical_pass rs)"
  by (induction rs) auto

text \<open>
  Claim C6. In the report of a run, every result with status not_found and category
  required is not working (as every constructor of a not_found result sets it) and the
  recommendations hold an entry of priority critical for it, with the message
  "Install <name> - required for building".
\<close>

theorem not_found_required_is_critical:
  assumes "run_checks h cfgs = Inr rep" and "r \<in> set (tools rep)"
    and "status r = ''not_found''" and "category r = ''required''"
  shows "\<not> working r \<and>
         (\<exists>rc. rc \<in> set (recommendations rep) \<and> priority rc = ''critical'' \<and>
               message rc = ''Install '' @ name r @ '' - required for building'')"
proof -
  from assms(1) obtain rs where rs: "check_all h cfgs = Inr rs" and rep: "rep = summarize rs"
    by (auto simp: run_checks_def split: sum.splits)
  from assms(2) rep have mem: "r \<in> set rs" by (simp add: summarize_def Let_def)
  from check_all_results [OF rs mem] obtain tc where "check_tool h tc = Inr (Some r)" by blast
  then have nw: "\<not> working r" using assms(3) by (rule check_tool_not_found_not_working)
  let ?rc = "\<lparr>priority = ''critical'',
              message = ''Install '' @ name r @ '' - required for building'',
              action = critical_action r\<rparr>"
  have "?rc \<in> set (critical_pass rs)"
    using mem assms(4) nw by (rule critical_pass_member)
  then have "?rc \<in> set (recommendations rep)"
    by (simp add: rep summarize_def Let_def generate_recommendations_def)
  then show ?thesis using nw by (intro conjI exI [of _ ?rc]) simp_all
qed

theorem not_found_required_is_critical_witness:
  "run_checks bare_host [widget_cfg] = Inr (summarize [widget_missing])
   \<and> widget_missing \<in> set (tools (summarize [widget_missing]))
   \<and> status widget_missing = ''not_found'' \<and> category widget_missing = ''required''
   \<and> \<not> working widget_missing
   \<and> (\<exists>rc. rc \<in> set (recommendations (summarize [widget_missing])) \<and> priority rc = ''critical'' \<and>
          message rc = ''Install Widget - required for building'')"
proof -
  have a: "run_checks bare_host [widget_cfg] = Inr (summarize [widget_missing])"
    by (simp add: run_checks_def widget_on_bare_host)
  have b: "widget_missing \<in> set (tools (summarize [widget_missing]))"
    by (simp add: summarize_def Let_def)
  have c: "status widget_missing = ''not_found''" and d: "category widget_missing = ''required''"
    and e: "name widget_missing = ''Widget''"
    by (simp_all add: widget_missing_def)
  from not_found_required_is_critical [OF a b c d] a b c d show ?thesis
    unfolding e by simp
qed

section \<open>Every descriptor gets a result\<close>

lemma extract_version_default:
  "extract_version h output None
     = Inr (if output = [] then None else first_pattern default_patterns output)"
  by (simp add: extract_version_def)

lemma extract_version_compiles:
  assumes "\<forall>output. re_search h r output \<noteq> ReError"
  shows "\<exists>v. extract_version h output (Some r) = Inr v"
  using assms by (auto simp: extract_version_def split: re_result.splits)

lemma check_command_returns:
  assumes "case regex of None \<Rightarrow> True | Some r \<Rightarrow> \<forall>output. re_search h r output \<noteq> ReError"
  shows "\<exists>x. check_command h command flag regex = Inr x"
proof -
  have ex: "\<exists>v. extract_version h outp regex = Inr v" for outp
  proof (cases regex)
    case None
    then show ?thesis by (simp add: extract_version_default)
  next
    case (Some r)
    with assms show ?thesis by (simp add: extract_version_compiles)
  qed
  show ?thesis
  proof (cases "which h command")
    case None
    then show ?thesis by (auto simp: check_command_def)
  next
    case (Some cmd_path)
    obtain s out err where rc: "run_command h [command, flag] False = (s, out, err)"
      by (cases "run_command h [command, flag] False") auto
    show ?thesis
    proof (cases "cmd_path = []")
      case True
      with Some show ?thesis by (auto simp: check_command_def)
    next
      case False
      show ?thesis
      proof (cases "if \<not> s then (if err \<noteq> [] then Some err else try_flags h command fallback_flags)
                     else Some (if out \<noteq> [] then out else err)")
        case None
        with Some False rc show ?thesis by (auto simp: check_command_def)
      next
        case (Some outp)
        from ex [of outp] obtain v where "extract_version h outp regex = Inr v" by blast
        with Some \<open>which h command = Some cmd_path\<close> False rc show ?thesis
          by (auto simp: check_command_def)
      qed
    qed
  qed
qed

lemma check_xcode_clt_issue:
  "status (check_xcode_clt h) = ''not_found'' \<or> status (check_xcode_clt h) = ''error''
   \<Longrightarrow> issues (check_xcode_clt h) \<noteq> []"
  by (auto simp: check_xcode_clt_def split: prod.splits if_splits)

lemma check_xcodebuild_returns: "\<exists>r. check_xcodebuild h = Inr (Some r)"
  by (auto simp: check_xcodebuild_def extract_version_default split: prod.splits)

lemma check_xcodebuild_issue:
  "check_xcodebuild h = Inr (Some r) \<Longrightarrow> status r = ''not_found'' \<or> status r = ''error''
   \<Longrightarrow> issues r \<noteq> []"
  by (auto simp: check_xcodebuild_def extract_version_default split: prod.splits if_splits)

lemma check_xcode_returns:
  "\<not> xcode_unreported h \<Longrightarrow> path_exists h xcode_app \<noteq> ExistsRaises
   \<Longrightarrow> \<exists>r. check_xcode h = Inr (Some r)"
  by (auto simp: check_xcode_def xcode_unreported_def extract_version_default Let_def
      split: prod.splits exists_outcome.splits)

lemma check_xcode_raises:
  "path_exists h xcode_app = ExistsRaises \<Longrightarrow> check_xcode h = Inl OSError"
  by (auto simp: check_xcode_def Let_def split: prod.splits)

lemma check_xcode_none:
  "xcode_unreported h \<Longrightarrow> check_xcode h = Inr None"
  by (auto simp: check_xcode_def xcode_unreported_def Let_def
      split: prod.splits exists_outcome.splits)

lemma check_xcode_issue:
  "check_xcode h = Inr (Some r) \<Longrightarrow> status r = ''not_found'' \<or> status r = ''error''
   \<Longrightarrow> issues r \<noteq> []"
  by (auto simp: check_xcode_def extract_version_default Let_def
      split: prod.splits if_splits exists_outcome.splits)

lemma command_result_issue:
  "status (command_result tc e v p) = ''not_found'' \<or> status (command_result tc e v p) = ''error''
   \<Longrightarrow> issues (command_result tc e v p) \<noteq> []"
  by (auto simp: command_result_def Let_def split: if_splits)

lemma check_framework_issue:
  "check_framework h n ps = Inr r \<Longrightarrow> status r = ''not_found'' \<or> status r = ''error''
   \<Longrightarrow> issues r \<noteq> []"
  by (auto simp: check_framework_def split: option.splits sum.splits)

lemma directory_result_returns:
  "probes_quietly h ps \<Longrightarrow> \<exists>r. directory_result h tc ps = Inr r"
  by (auto simp: probes_quietly_returns directory_result_def split: option.splits)

lemma check_tool_returns:
  assumes "probe_ok h tc"
  shows "\<exists>r. check_tool h tc = Inr (Some r) \<and>
           (config_check_type tc \<noteq> ''directory'' \<longrightarrow>
            status r = ''not_found'' \<or> status r = ''error'' \<longrightarrow> issues r \<noteq> [])"
proof -
  let ?ct = "config_check_type tc"
  from assms have wf: "well_formed tc" and pc: "pattern_compiles h tc"
    and pq: "paths_probed_quietly h tc"
    and nx: "\<not> (?ct = ''custom'' \<and> check_get tc ck_function = Some ''check_xcode'' \<and> xcode_unreported h)"
    by (simp_all add: probe_ok_def)
  have key: "check_get tc sel = Some v \<Longrightarrow> check_key tc sel k = Inr v" for sel :: "check_cfg \<Rightarrow> 'b option" and v k
    by (auto simp: check_key_def check_get_def split: option.splits)
  consider (custom) "?ct = ''custom''" | (command) "?ct = ''command''"
    | (directory) "?ct = ''directory''" | (framework) "?ct = ''framework''"
    | (other) "?ct \<noteq> ''custom''" "?ct \<noteq> ''command''" "?ct \<noteq> ''directory''" "?ct \<noteq> ''framework''"
    by blast
  then show ?thesis
  proof cases
    case custom
    with wf obtain f where f: "check_get tc ck_function = Some f"
      by (auto simp: well_formed_def Let_def)
    note k = key [OF f, of "''function''"]
    consider (xcode) "f = ''check_xcode''" | (clt) "f = ''check_xcode_clt''"
      | (build) "f = ''check_xcodebuild''" | (none) "\<not> recognized_routine f"
      by (auto simp: recognized_routine_def)
    then show ?thesis
    proof cases
      case xcode
      with nx custom f have "\<not> xcode_unreported h" by simp
      moreover from pq custom f xcode have "path_exists h xcode_app \<noteq> ExistsRaises"
        by (simp add: paths_probed_quietly_def)
      ultimately obtain r where r: "check_xcode h = Inr (Some r)"
        using check_xcode_returns by blast
      have "check_tool h tc = Inr (Some r)"
        using custom k xcode r by (simp add: check_tool_def)
      with check_xcode_issue [OF r] show ?thesis by blast
    next
      case clt
      have "check_tool h tc = Inr (Some (check_xcode_clt h))"
        using custom k clt by (simp add: check_tool_def)
      with check_xcode_clt_issue [of h] show ?thesis by blast
    next
      case build
      from check_xcodebuild_returns obtain r where r: "check_xcodebuild h = Inr (Some r)" by blast
      have "check_tool h tc = Inr (Some r)"
        using custom k build r by (simp add: check_tool_def)
      with check_xcodebuild_issue [OF r] show ?thesis by blast
    next
      case none
      have "check_tool h tc = Inr (Some (unknown_result tc ?ct))"
        using custom f none by (intro check_tool_unknown) simp
      then show ?thesis by (simp add: unknown_result_def)
    qed
  next
    case command
    with wf obtain c where c: "check_get tc ck_command = Some c"
      by (auto simp: well_formed_def Let_def)
    note k = key [OF c, of "''command''"]
    let ?flag = "case check_get tc ck_version_flag of None \<Rightarrow> ''--version'' | Some f \<Rightarrow> f"
    from pc have "case check_get tc ck_version_regex of None \<Rightarrow> True
                  | Some r \<Rightarrow> \<forall>output. re_search h r output \<noteq> ReError"
      by (simp add: pattern_compiles_def)
    from check_command_returns [OF this, of c ?flag]
    obtain e v p where "check_command h c ?flag (check_get tc ck_version_regex) = Inr (e, v, p)"
      by auto
    then have "check_tool h tc = Inr (Some (command_result tc e v p))"
      using command k by (simp add: check_tool_def)
    with command_result_issue [of tc e v p] show ?thesis by blast
  next
    case directory
    with wf obtain ps where ps: "check_get tc ck_paths = Some ps"
      by (auto simp: well_formed_def Let_def)
    note k = key [OF ps, of "''paths''"]
    from pq directory ps have "probes_quietly h ps"
      by (simp add: paths_probed_quietly_def)
    from directory_result_returns [OF this] obtain r where "directory_result h tc ps = Inr r"
      by blast
    then have "check_tool h tc = Inr (Some r)"
      using check_tool_directory [OF directory ps, of h] by simp
    with directory show ?thesis by simp
  next
    case framework
    with wf obtain ps where ps: "check_get tc ck_paths = Some ps"
      by (auto simp: well_formed_def Let_def)
    from pq framework ps have "probes_quietly h ps"
      by (simp add: paths_probed_quietly_def)
    from check_framework_returns [OF this] obtain r where
      r: "check_framework h (cfg_name tc) ps = Inr r"
      by blast
    then have "check_tool h tc = Inr (Some r)"
      using check_tool_framework [OF framework ps, of h] by simp
    with check_framework_issue [OF r] show ?thesis by blast
  next
    case other
    then have "check_tool h tc = Inr (Some (unknown_result tc ?ct))"
      by (intro check_tool_unknown) simp
    then show ?thesis by (simp add: unknown_result_def)
  qed
qed

text \<open>
  Claim C1, amended. For descriptors that are well formed, whose custom pattern compiles
  and whose path probes do not raise (\<open>exists\<close> raises on no candidate that the loop
  reaches, nor on the Xcode bundle in \<open>check_xcode\<close>), on a machine that is not in the
  state where \<open>check_xcode\<close> returns nothing, the check of each descriptor returns
  exactly one result and raises nothing, and a batch run returns one result per
  descriptor, in order. A failed probe (timeout, missing
  executable, other exception) is absorbed by \<open>run_command\<close>; the result is computed
  from what was found, so it can be a found result without issue. A not_found or error
  result carries an issue under every strategy but the directory strategy.
\<close>

theorem one_result_per_descriptor:
  assumes "\<forall>tc\<in>set cfgs. probe_ok h tc"
  shows "\<exists>rs. check_all h cfgs = Inr rs \<and> length rs = length cfgs \<and>
           (\<forall>i<length cfgs.
              check_tool h (cfgs ! i) = Inr (Some (rs ! i)) \<and>
              (config_check_type (cfgs ! i) \<noteq> ''directory'' \<longrightarrow>
               status (rs ! i) = ''not_found'' \<or> status (rs ! i) = ''error'' \<longrightarrow>
               issues (rs ! i) \<noteq> []))"
  using assms
proof (induction cfgs)
  case Nil
  then show ?case by simp
next
  case (Cons tc cfgs)
  from Cons.prems have "probe_ok h tc" by simp
  from check_tool_returns [OF this] obtain r where
    r: "check_tool h tc = Inr (Some r)"
    and ri: "config_check_type tc \<noteq> ''directory'' \<longrightarrow>
             status r = ''not_found'' \<or> status r = ''error'' \<longrightarrow> issues r \<noteq> []"
    by blast
  from Cons.prems have "\<forall>tc\<in>set cfgs. probe_ok h tc" by simp
  from Cons.IH [OF this] obtain rs where
    rs: "check_all h cfgs = Inr rs" and len: "length rs = length cfgs"
    and each: "\<forall>i<length cfgs.
              check_tool h (cfgs ! i) = Inr (Some (rs ! i)) \<and>
              (config_check_type (cfgs ! i) \<noteq> ''directory'' \<longrightarrow>
               status (rs ! i) = ''not_found'' \<or> status (rs ! i) = ''error'' \<longrightarrow>
               issues (rs ! i) \<noteq> [])"
    by blast
  have all: "check_all h (tc # cfgs) = Inr (r # rs)"
    using r rs by simp
  have "\<forall>i<length (tc # cfgs).
              check_tool h ((tc # cfgs) ! i) = Inr (Some ((r # rs) ! i)) \<and>
              (config_check_type ((tc # cfgs) ! i) \<noteq> ''directory'' \<longrightarrow>
               status ((r # rs) ! i) = ''not_found'' \<or> status ((r # rs) ! i) = ''error'' \<longrightarrow>
               issues ((r # rs) ! i) \<noteq> [])"
  proof (intro allI impI)
    fix i assume "i < length (tc # cfgs)"
    then show "check_tool h ((tc # cfgs) ! i) = Inr (Some ((r # rs) ! i)) \<and>
              (config_check_type ((tc # cfgs) ! i) \<noteq> ''directory'' \<longrightarrow>
               status ((r # rs) ! i) = ''not_found'' \<or> status ((r # rs) ! i) = ''error'' \<longrightarrow>
               issues ((r # rs) ! i) \<noteq> [])"
      using r ri each by (cases i) auto
  qed
  with all len show ?case by (intro exI [of _ "r # rs"]) simp
qed

theorem one_result_per_descriptor_witness:
  "probe_ok bare_host widget_cfg \<and> probe_ok bare_host metal_cfg
   \<and> (\<exists>rs. check_all bare_host [widget_cfg, metal_cfg] = Inr rs \<and> length rs = 2)"
proof -
  have a: "probe_ok bare_host widget_cfg"
    by (simp add: probe_ok_def well_formed_def pattern_compiles_def paths_probed_quietly_def
        config_check_type_def check_get_def widget_cfg_def no_check_def)
  have b: "probe_ok bare_host metal_cfg"
    by (simp add: probe_ok_def well_formed_def pattern_compiles_def paths_probed_quietly_def
        config_check_type_def check_get_def metal_cfg_def no_check_def bare_host_def)
  have c: "\<forall>tc\<in>set [widget_cfg, metal_cfg]. probe_ok bare_host tc"
    using a b by simp
  from one_result_per_descriptor [OF c]
  have "\<exists>rs. check_all bare_host [widget_cfg, metal_cfg] = Inr rs \<and> length rs = 2"
    by auto
  with a b show ?thesis by blast
qed

text \<open>
  Claim C1, as stated, fails: a probe that fails is not always absorbed into a not_found
  or error result with an issue. The executable resolves, the version probe runs into the
  timeout, and the result is found and working, with no issue.
\<close>

theorem timeout_yields_found_counterexample:
  "which slow_host ''gadget'' = Some ''/usr/local/bin/gadget''
   \<and> run slow_host [''gadget'', ''--version''] = TimeoutExpired
   \<and> well_formed gadget_cfg
   \<and> check_tool slow_host gadget_cfg = Inr (Some gadget_found)
   \<and> status gadget_found = ''found'' \<and> working gadget_found \<and> issues gadget_found = []"
  by (simp add: slow_host_def bare_host_def gadget_cfg_def no_check_def gadget_found_def
      well_formed_def config_check_type_def check_get_def check_key_def check_tool_def
      check_command_def run_command_def extract_version_def default_patterns_def
      pat_dotted3_def pat_version_def pat_v3_def is_digit_def lower_char_def command_result_def)

text \<open>
  The state left out above: Xcode is installed and selected and \<open>xcodebuild -version\<close>
  fails. \<open>check_xcode\<close> appends its issue and returns nothing, and the run ends with a
  \<open>TypeError\<close> when the result is converted.
\<close>

lemma check_xcode_missing_return:
  "xcode_unreported broken_xcode_host
   \<and> check_tool broken_xcode_host xcode_cfg = Inr None
   \<and> run_checks broken_xcode_host [xcode_cfg] = Inl TypeError"
proof -
  have s: "strip ''/Applications/Xcode.app/Contents/Developer'' = ''/Applications/Xcode.app/Contents/Developer''"
    by (simp add: strip_def is_space_def)
  have a: "xcode_unreported broken_xcode_host"
    by (simp add: xcode_unreported_def broken_xcode_host_def bare_host_def xcode_app_def
        run_command_def s selected_def)
  have b: "check_tool broken_xcode_host xcode_cfg = Inr None"
    using check_xcode_none [OF a]
    by (simp add: check_tool_def config_check_type_def check_get_def check_key_def xcode_cfg_def
        no_check_def)
  from a b show ?thesis by (simp add: run_checks_def)
qed

section \<open>Version extraction\<close>

lemma labeled_example: "first_pattern default_patterns ''tool version 12.3'' = Some ''12.3''"
  by (simp add: default_patterns_def pat_dotted3_def pat_version_def pat_v3_def is_digit_def
      lower_char_def)

lemma prefixed_example: "first_pattern default_patterns ''v1.2.3 release'' = Some ''1.2.3''"
  by (simp add: default_patterns_def pat_dotted3_def pat_version_def pat_v3_def is_digit_def
      lower_char_def)

text \<open>
  Claim C7, as stated, fails on an empty output: the source returns no version before it
  looks at any pattern, where the custom pattern \<open>.*\<close> matches the empty text and the
  claim has its whole match, the empty string, returned.
\<close>

theorem extract_version_empty_output_counterexample:
  "re_search dotstar_host ''.*'' '''' = Match '''' []
   \<and> spec_extract_version dotstar_host '''' (Some ''.*'') = Some ''''
   \<and> extract_version dotstar_host '''' (Some ''.*'') = Inr None
   \<and> extract_version dotstar_host '''' (Some ''.*'')
       \<noteq> Inr (spec_extract_version dotstar_host '''' (Some ''.*''))"
  by (simp add: dotstar_host_def bare_host_def spec_extract_version_def extract_version_def)

text \<open>
  Claim C7, amended. For a non-empty output and a custom pattern that is absent or
  non-empty and compiles, extraction tries the custom pattern first (first capturing group
  if the pattern has groups, else the whole match) and otherwise the three default patterns
  in order, returning the first match or no version. An empty output gives no version
  whatever the pattern, and an empty pattern counts as no pattern. "tool version 12.3"
  gives "12.3" and "v1.2.3 release" gives "1.2.3".
\<close>

theorem extract_version_order:
  assumes "output \<noteq> []" and "regex \<noteq> Some []"
    and "\<forall>r. regex = Some r \<longrightarrow> re_search h r output \<noteq> ReError"
  shows "extract_version h output regex = Inr (spec_extract_version h output regex)
         \<and> extract_version h [] regex = Inr None
         \<and> extract_version h output (Some []) = extract_version h output None
         \<and> extract_version h ''tool version 12.3'' None = Inr (Some ''12.3'')
         \<and> extract_version h ''v1.2.3 release'' None = Inr (Some ''1.2.3'')"
proof -
  have "extract_version h output regex = Inr (spec_extract_version h output regex)"
    using assms
    by (auto simp: extract_version_def spec_extract_version_def split: option.splits re_result.splits)
  moreover have "extract_version h [] regex = Inr None"
    by (simp add: extract_version_def)
  moreover have "extract_version h output (Some []) = extract_version h output None"
    by (simp add: extract_version_def)
  moreover have "extract_version h ''tool version 12.3'' None = Inr (Some ''12.3'')"
    by (simp add: extract_version_default labeled_example)
  moreover have "extract_version h ''v1.2.3 release'' None = Inr (Some ''1.2.3'')"
    by (simp add: extract_version_default prefixed_example)
  ultimately show ?thesis by blast
qed

theorem extract_version_order_witness:
  "''gadget 2.0.0'' \<noteq> [] \<and> Some ''.*'' \<noteq> Some []
   \<and> re_search dotstar_host ''.*'' ''gadget 2.0.0'' = Match ''gadget 2.0.0'' []
   \<and> extract_version dotstar_host ''gadget 2.0.0'' (Some ''.*'') = Inr (Some ''gadget 2.0.0'')"
proof -
  have a: "''gadget 2.0.0'' \<noteq> []" and b: "Some ''.*'' \<noteq> Some []"
    by simp_all
  have c: "re_search dotstar_host ''.*'' ''gadget 2.0.0'' = Match ''gadget 2.0.0'' []"
    by (simp add: dotstar_host_def bare_host_def)
  have d: "\<forall>r. Some ''.*'' = Some r \<longrightarrow> re_search dotstar_host r ''gadget 2.0.0'' \<noteq> ReError"
    using c by simp
  from extract_version_order [OF a b d] a b c
  show ?thesis by (simp add: spec_extract_version_def)
qed

text \<open>
  The order of the default patterns and the case of the label: a three-part number wins
  over a labeled two-part one that stands earlier in the text, and the label is matched
  whatever its case.
\<close>

lemma dotted_before_labeled:
  "first_pattern default_patterns ''version 1.2 build 3.4.5'' = Some ''3.4.5''"
  by (simp add: default_patterns_def pat_dotted3_def pat_version_def pat_v3_def is_digit_def
      lower_char_def)

lemma label_ignores_case:
  "first_pattern default_patterns ''Tool VERSION 12.3'' = Some ''12.3''"
  by (simp add: default_patterns_def pat_dotted3_def pat_version_def pat_v3_def is_digit_def
      lower_char_def)

text \<open>A search returns the match at the leftmost position where the pattern matches.\<close>

lemma search_leftmost:
  "search m s = Some v \<longleftrightarrow>
     (\<exists>i\<le>length s. m (drop i s) = Some v \<and> (\<forall>j<i. m (drop j s) = None))"
proof (induction s)
  case Nil
  then show ?case by simp
next
  case (Cons c cs)
  show ?case
  proof (cases "m (c # cs)")
    case (Some w)
    have "(\<exists>i\<le>length (c # cs). m (drop i (c # cs)) = Some v \<and> (\<forall>j<i. m (drop j (c # cs)) = None))
          \<longleftrightarrow> w = v"
    proof
      assume "\<exists>i\<le>length (c # cs). m (drop i (c # cs)) = Some v \<and> (\<forall>j<i. m (drop j (c # cs)) = None)"
      then obtain i where i: "m (drop i (c # cs)) = Some v" "\<forall>j<i. m (drop j (c # cs)) = None" by blast
      have "i = 0"
      proof (rule ccontr)
        assume "i \<noteq> 0"
        then have "m (drop 0 (c # cs)) = None" using i(2) by blast
        with Some show False by simp
      qed
      with i(1) Some show "w = v" by simp
    next
      assume "w = v"
      with Some show "\<exists>i\<le>length (c # cs). m (drop i (c # cs)) = Some v \<and> (\<forall>j<i. m (drop j (c # cs)) = None)"
        by (intro exI [of _ 0]) simp
    qed
    with Some show ?thesis by simp
  next
    case None
    have "(\<exists>i\<le>length (c # cs). m (drop i (c # cs)) = Some v \<and> (\<forall>j<i. m (drop j (c # cs)) = None))
          \<longleftrightarrow> (\<exists>i\<le>length cs. m (drop i cs) = Some v \<and> (\<forall>j<i. m (drop j cs) = None))"
    proof
      assume "\<exists>i\<le>length (c # cs). m (drop i (c # cs)) = Some v \<and> (\<forall>j<i. m (drop j (c # cs)) = None)"
      then obtain i where i: "i \<le> length (c # cs)" "m (drop i (c # cs)) = Some v"
        "\<forall>j<i. m (drop j (c # cs)) = None" by blast
      from i(2) None obtain k where k: "i = Suc k" by (cases i) auto
      have "\<forall>j<k. m (drop j cs) = None"
      proof (intro allI impI)
        fix j assume "j < k"
        then have "Suc j < i" using k by simp
        with i(3) have "m (drop (Suc j) (c # cs)) = None" by blast
        then show "m (drop j cs) = None" by simp
      qed
      with i k show "\<exists>i\<le>length cs. m (drop i cs) = Some v \<and> (\<forall>j<i. m (drop j cs) = None)"
        by (intro exI [of _ k]) simp
    next
      assume "\<exists>i\<le>length cs. m (drop i cs) = Some v \<and> (\<forall>j<i. m (drop j cs) = None)"
      then obtain k where k: "k \<le> length cs" "m (drop k cs) = Some v"
        "\<forall>j<k. m (drop j cs) = None" by blast
      have "\<forall>j<Suc k. m (drop j (c # cs)) = None"
      proof (intro allI impI)
        fix j assume "j < Suc k"
        then show "m (drop j (c # cs)) = None"
          using None k(3) by (cases j) auto
      qed
      with k show "\<exists>i\<le>length (c # cs). m (drop i (c # cs)) = Some v \<and> (\<forall>j<i. m (drop j (c # cs)) = None)"
        by (intro exI [of _ "Suc k"]) simp
    qed
    with None Cons.IH show ?thesis by simp
  qed
qed

section \<open>The command strategy and its fallback flags\<close>

text \<open>
  \<open>check_command\<close> runs the primary probe without \<open>check_error\<close>, so a completed
  process counts as a success whatever its exit code, and the loop over the alternative
  flags is reached only when the probe raised an exception whose message is empty.
\<close>

lemma exit_code_is_not_read:
  assumes "which h command = Some p" and "p \<noteq> []"
    and "run h [command, flag] = Completed rc out err"
  shows "check_command h command flag regex =
           (case extract_version h (if out \<noteq> [] then out else err) regex of
              Inl e \<Rightarrow> Inl e
            | Inr v \<Rightarrow> Inr (True, v, Some p))"
  using assms by (simp add: check_command_def run_command_def)

lemma on_path_is_working:
  assumes "which h command = Some p" and "p \<noteq> []"
    and "check_command h command flag regex = Inr (e, v, q)"
  shows "e \<and> q = Some p"
  using assms
  by (auto simp: check_command_def split: prod.splits option.splits sum.splits if_splits)

text \<open>
  Claim C5 at a failing input. \<open>gadget\<close> resolves on the search path,
  \<open>gadget --version\<close> exits with status 1 and prints nothing, and \<open>gadget -v\<close> prints
  "gadget 2.0.0". The loop over the alternative flags would produce that output, from which
  the version 2.0.0 is extracted, but \<open>check_command\<close> does not enter the loop: it
  returns with the version absent.
\<close>

theorem nonzero_exit_is_not_retried:
  "which flag_host ''gadget'' = Some ''/usr/local/bin/gadget''
   \<and> run flag_host [''gadget'', ''--version''] = Completed 1 '''' ''''
   \<and> try_flags flag_host ''gadget'' fallback_flags = Some ''gadget 2.0.0''
   \<and> extract_version flag_host ''gadget 2.0.0'' None = Inr (Some ''2.0.0'')
   \<and> check_command flag_host ''gadget'' ''--version'' None
       = Inr (True, None, Some ''/usr/local/bin/gadget'')"
  by (simp add: flag_host_def bare_host_def fallback_flags_def run_command_def check_command_def
      extract_version_def default_patterns_def pat_dotted3_def pat_version_def pat_v3_def
      is_digit_def lower_char_def)

section \<open>Summary and recommendations\<close>

lemma critical_pass_eq:
  "critical_pass rs =
     map (\<lambda>t. \<lparr>priority = ''critical'',
               message = ''Install '' @ name t @ '' - required for building'',
               action = critical_action t\<rparr>)
         (filter (\<lambda>t. category t = ''required'' \<and> \<not> working t) rs)"
  by (induction rs) auto

lemma low_pass_eq:
  "low_pass rs =
     map (\<lambda>t. \<lparr>priority = ''low'', message = ''Consider installing '' @ name t,
               action = low_action t\<rparr>)
         (filter (\<lambda>t. category t = ''optional'' \<and> \<not> working t) rs)"
  by (induction rs) auto

lemma summary_counts:
  "all_required_present (summarize rs) = (\<forall>r\<in>set rs. category r = ''required'' \<longrightarrow> working r)"
  "required_count (summarize rs) = length (filter (\<lambda>r. category r = ''required'') rs)"
  "required_present (summarize rs) = length (filter (\<lambda>r. category r = ''required'' \<and> working r) rs)"
  "optional_count (summarize rs) = length (filter (\<lambda>r. category r = ''optional'') rs)"
  "optional_present (summarize rs) = length (filter (\<lambda>r. category r = ''optional'' \<and> working r) rs)"
  by (auto simp: summarize_def Let_def list_all_iff conj_commute)

lemma critical_action_rule:
  "critical_action t =
     (case installation t of
        None \<Rightarrow> None
      | Some i \<Rightarrow> py_or (inst_command i) (inst_url i))"
  by (auto simp: critical_action_def inst_nonempty_def py_or_def split: option.splits)

lemma low_action_rule:
  "low_action t = (case installation t of None \<Rightarrow> None | Some i \<Rightarrow> inst_command i)"
  by (auto simp: low_action_def inst_nonempty_def split: option.splits)

text \<open>
  Claim C4 at a failing input. An optional tool that is not found and whose installation
  hint has a URL and no command gets a low recommendation without action, where the same
  result with category required gets the URL as the action of its critical
  recommendation.
\<close>

theorem optional_recommendation_drops_url:
  "check_tool bare_host gizmo_cfg = Inr (Some gizmo_missing)
   \<and> generate_recommendations [gizmo_missing]
       = [\<lparr>priority = ''low'', message = ''Consider installing Gizmo'', action = None\<rparr>]
   \<and> generate_recommendations [gizmo_missing\<lparr>category := ''required''\<rparr>]
       = [\<lparr>priority = ''critical'', message = ''Install Gizmo - required for building'',
           action = Some ''https://example.org/gizmo''\<rparr>]"
  by (simp add: check_tool_def config_check_type_def check_get_def check_key_def gizmo_cfg_def
      no_check_def bare_host_def check_command_def command_result_def gizmo_missing_def
      inst_nonempty_def generate_recommendations_def critical_action_def low_action_def py_or_def)

end
